theory Spec2Isabelle
  imports Main "HOL-Library.Monad_Syntax"
begin

section \<open>The CMAC provider of providers/common/macs/cmac_prov.c\<close>

text \<open>
  The file under verification is the provider glue between the generic MAC interface
  (new, dup, free, init, update, final, get/set parameters) and the CMAC primitive.
  The glue mutates three kinds of heap objects through pointers: its own
  \<open>struct cmac_data_st\<close>, the \<open>CMAC_CTX\<close> of the primitive, and the reference counted
  cipher and engine descriptors of the registries. The model therefore threads an
  explicit store (\<open>world\<close>) through every function. A C pointer is an
  \<open>addr option\<close>, \<open>None\<close> being \<open>NULL\<close>.

  Every function returns an \<open>option\<close>: \<open>None\<close> says that the C program has left defined
  behaviour (it dereferenced \<open>NULL\<close> or a pointer to no live object). Inside \<open>Some\<close>, a
  C \<open>int\<close> status is a value of \<open>error + 'a\<close>: \<open>Inr\<close> is the C return value 1,
  \<open>Inl e\<close> is the C return value 0 (or a \<open>NULL\<close> result), labelled with the reason.
\<close>

subsection \<open>Data\<close>

type_synonym addr = nat

text \<open>C's \<open>char\<close> and \<open>unsigned char\<close> buffers: names, identifiers, keys, message data.\<close>

type_synonym bytes = string

datatype error =
    AllocationFailure
  | UnresolvedCipher
  | UnresolvedEngine
  | InvalidParameterType
  | NotConfigured
  | InvalidState
  | BufferTooSmall
  | BindingFailure
  | RefCountFailure

text \<open>\<open>struct cmac_data_st\<close>, lines 38-56.\<close>

record cmac_data_st =
  provctx :: nat
  ctx :: "addr option"
  tmpcipher :: "addr option"
  alloc_cipher :: "addr option"
  tmpengine :: "addr option"

text \<open>
  Modelled from the spec: the cipher descriptor \<open>EVP_CIPHER\<close> (openssl/evp.h is not among
  the sources). The spec describes it as "a resolved cipher descriptor (block size, key
  schedule producer)"; the key schedule producer accepts the keys of the cipher's key
  length, any other key being "rejected" (\<open>BindingFailure\<close>).
\<close>

record EVP_CIPHER =
  block_size :: nat
  key_length :: nat

text \<open>
  Modelled from the spec: the cipher context inside a \<open>CMAC_CTX\<close> and the
  \<open>CMAC_CTX\<close> itself (openssl/cmac.h and crypto/cmac are not among the sources). The spec's
  \<open>computationState\<close> is an "opaque CBC-MAC running state (accumulated partial block,
  running MAC value, finalized flag)" produced by \<open>bind(cipher, engine, key, keyLen)\<close>.
  The accumulated partial block and the running MAC value are represented by the message
  bytes absorbed since the key was bound, which determine both.
\<close>

record EVP_CIPHER_CTX =
  cipher :: "addr option"
  engine :: "addr option"
  cipher_key :: "bytes option"

record CMAC_CTX =
  cctx :: EVP_CIPHER_CTX
  absorbed :: bytes
  finalized :: bool

text \<open>
  The bytes that \<open>final\<close> writes. The block cipher and the CBC chaining are outside the
  file (and outside the spec), so a MAC byte is symbolic: \<open>MacByte c k msg i\<close> is byte
  \<open>i\<close> of the CMAC of message \<open>msg\<close> under key \<open>k\<close> with the cipher at \<open>c\<close>.
\<close>

datatype mac_byte = MacByte addr bytes bytes nat

text \<open>
  \<open>OSSL_PARAM\<close> (openssl/core.h is not among the sources): the fields the file reads.
  \<open>data\<close> is what the \<open>data\<close> pointer points to: a buffer of \<open>data_size\<close> bytes for
  the string types, a \<open>size_t\<close> variable for the integer that \<open>get\<close> fills in.
\<close>

datatype param_type =
    OSSL_PARAM_INTEGER
  | OSSL_PARAM_UNSIGNED_INTEGER
  | OSSL_PARAM_REAL
  | OSSL_PARAM_UTF8_STRING
  | OSSL_PARAM_OCTET_STRING

datatype param_data = Buffer bytes | Size_t nat

record OSSL_PARAM =
  key :: string
  data_type :: param_type
  data :: param_data

text \<open>
  The store. \<open>macctxs\<close> and \<open>cmac_ctxs\<close> are the live heap objects of the two struct
  types; \<open>next_addr\<close> and \<open>mem_avail\<close> are the allocator (the next address it hands out,
  and how many more requests it can satisfy). \<open>cipher_desc\<close>, \<open>cipher_refs\<close>,
  \<open>fetch_tab\<close> and \<open>legacy_tab\<close> are the cipher registry, \<open>engine_tab\<close> and
  \<open>engine_refs\<close> the engine registry; \<open>atomics_ok\<close> says whether an atomic reference
  count increment can be carried out. \<open>fips_mode\<close> and \<open>no_engine\<close> are the
  preprocessor symbols \<open>FIPS_MODE\<close> and \<open>OPENSSL_NO_ENGINE\<close> of the build.
\<close>

record world =
  macctxs :: "addr \<rightharpoonup> cmac_data_st"
  cmac_ctxs :: "addr \<rightharpoonup> CMAC_CTX"
  next_addr :: addr
  mem_avail :: nat
  cipher_desc :: "addr \<rightharpoonup> EVP_CIPHER"
  cipher_refs :: "addr \<Rightarrow> nat"
  fetch_tab :: "nat \<times> string \<times> string option \<rightharpoonup> addr"
  legacy_tab :: "string \<rightharpoonup> addr"
  engine_tab :: "string \<rightharpoonup> addr"
  engine_refs :: "addr \<Rightarrow> nat"
  atomics_ok :: bool
  fips_mode :: bool
  no_engine :: bool

type_synonym 'a res = "('a \<times> world) option"

subsection \<open>Collaborators: allocator, registries, parameters\<close>

text \<open>
  Modelled from the spec: \<open>OPENSSL_zalloc\<close> and \<open>OPENSSL_free\<close> (crypto/mem.c is not
  among the sources), at the one type the file allocates. The spec names
  \<open>AllocationFailure\<close> as an error kind; a zeroed struct has every pointer \<open>NULL\<close>.
\<close>

definition zeroed :: cmac_data_st where
  "zeroed = \<lparr>provctx = 0, ctx = None, tmpcipher = None, alloc_cipher = None, tmpengine = None\<rparr>"

definition OPENSSL_zalloc :: "world \<Rightarrow> addr option \<times> world" where
  "OPENSSL_zalloc w =
     (if mem_avail w = 0 then (None, w)
      else (Some (next_addr w),
            w\<lparr>macctxs := (macctxs w)(next_addr w \<mapsto> zeroed),
              next_addr := next_addr w + 1,
              mem_avail := mem_avail w - 1\<rparr>))"

definition OPENSSL_free :: "world \<Rightarrow> addr option \<Rightarrow> world" where
  "OPENSSL_free w p =
     (case p of None \<Rightarrow> w | Some a \<Rightarrow> w\<lparr>macctxs := (macctxs w)(a := None)\<rparr>)"

definition store_macctx :: "world \<Rightarrow> addr \<Rightarrow> cmac_data_st \<Rightarrow> world" where
  "store_macctx w a m = w\<lparr>macctxs := (macctxs w)(a \<mapsto> m)\<rparr>"

text \<open>
  Modelled from the spec: the cipher registry collaborator (crypto/evp is not among the
  sources): "\<open>fetch(name, propertyQuery) -> ResolvedCipher | Unresolved\<close>,
  \<open>legacyLookup(name) -> ResolvedCipher | Unresolved\<close>, reference-count
  \<open>increment(handle)\<close>/\<open>release(handle)\<close>". A fetch hands out a counted reference
  ("a reference-counted cipher handle"); a legacy lookup hands out "a cached, unowned
  reference". Release of \<open>NULL\<close> does nothing. The increment can fail
  ("reference-increment failure").
\<close>

definition EVP_CIPHER_fetch ::
  "world \<Rightarrow> nat \<Rightarrow> string \<Rightarrow> string option \<Rightarrow> addr option \<times> world" where
  "EVP_CIPHER_fetch w libctx algoname propquery =
     (case fetch_tab w (libctx, algoname, propquery) of
        None \<Rightarrow> (None, w)
      | Some c \<Rightarrow> (Some c, w\<lparr>cipher_refs := (cipher_refs w)(c := Suc (cipher_refs w c))\<rparr>))"

definition EVP_get_cipherbyname :: "world \<Rightarrow> string \<Rightarrow> addr option" where
  "EVP_get_cipherbyname w algoname = legacy_tab w algoname"

definition EVP_CIPHER_up_ref :: "world \<Rightarrow> addr \<Rightarrow> bool \<times> world" where
  "EVP_CIPHER_up_ref w c =
     (if atomics_ok w
      then (True, w\<lparr>cipher_refs := (cipher_refs w)(c := Suc (cipher_refs w c))\<rparr>)
      else (False, w))"

definition EVP_CIPHER_meth_free :: "world \<Rightarrow> addr option \<Rightarrow> world" where
  "EVP_CIPHER_meth_free w p =
     (case p of
        None \<Rightarrow> w
      | Some c \<Rightarrow> w\<lparr>cipher_refs := (cipher_refs w)(c := cipher_refs w c - 1)\<rparr>)"

text \<open>
  Modelled from the spec: the engine registry collaborator (crypto/engine is not among
  the sources): "\<open>byId(id) -> EngineHandle | Unresolved\<close>, \<open>release(EngineHandle)\<close>".
\<close>

definition ENGINE_by_id :: "world \<Rightarrow> string \<Rightarrow> addr option \<times> world" where
  "ENGINE_by_id w ident =
     (case engine_tab w ident of
        None \<Rightarrow> (None, w)
      | Some e \<Rightarrow> (Some e, w\<lparr>engine_refs := (engine_refs w)(e := Suc (engine_refs w e))\<rparr>))"

definition ENGINE_finish :: "world \<Rightarrow> addr option \<Rightarrow> world" where
  "ENGINE_finish w p =
     (case p of
        None \<Rightarrow> w
      | Some e \<Rightarrow> w\<lparr>engine_refs := (engine_refs w)(e := engine_refs w e - 1)\<rparr>)"

text \<open>
  Modelled from the spec: \<open>PROV_LIBRARY_CONTEXT_OF\<close> (internal/provider_ctx.h is not among
  the sources). The spec's fetch takes only the name and the property query, so the
  library context is the provider context handed to \<open>cmac_new\<close>.
\<close>

definition PROV_LIBRARY_CONTEXT_OF :: "nat \<Rightarrow> nat" where
  "PROV_LIBRARY_CONTEXT_OF pctx = pctx"

text \<open>
  Modelled from the spec: the parameter names of openssl/core_names.h (not among the
  sources), as the spec's parameter schema gives them.
\<close>

definition OSSL_MAC_PARAM_CIPHER :: string where "OSSL_MAC_PARAM_CIPHER = ''cipher''"
definition OSSL_MAC_PARAM_ENGINE :: string where "OSSL_MAC_PARAM_ENGINE = ''engine''"
definition OSSL_MAC_PARAM_PROPERTIES :: string where "OSSL_MAC_PARAM_PROPERTIES = ''properties''"
definition OSSL_MAC_PARAM_KEY :: string where "OSSL_MAC_PARAM_KEY = ''key''"
definition OSSL_MAC_PARAM_SIZE :: string where "OSSL_MAC_PARAM_SIZE = ''size''"

text \<open>
  Modelled from the spec: \<open>OSSL_PARAM_locate\<close>, \<open>OSSL_PARAM_locate_const\<close> and
  \<open>OSSL_PARAM_set_size_t\<close> (crypto/params.c is not among the sources): "a generic
  key/value configuration mechanism", "with strict typing per parameter". Locating
  gives the position of the first entry with the key; the "size" parameter is an
  "integer", so a request of another type is refused.
\<close>

fun OSSL_PARAM_locate :: "OSSL_PARAM list \<Rightarrow> string \<Rightarrow> nat option" where
  "OSSL_PARAM_locate [] k = None"
| "OSSL_PARAM_locate (p # ps) k =
     (if key p = k then Some 0 else map_option Suc (OSSL_PARAM_locate ps k))"

definition OSSL_PARAM_locate_const :: "OSSL_PARAM list \<Rightarrow> string \<Rightarrow> OSSL_PARAM option" where
  "OSSL_PARAM_locate_const params k = map_option (\<lambda>i. params ! i) (OSSL_PARAM_locate params k)"

definition OSSL_PARAM_set_size_t :: "OSSL_PARAM \<Rightarrow> nat \<Rightarrow> error + OSSL_PARAM" where
  "OSSL_PARAM_set_size_t p v =
     (if data_type p = OSSL_PARAM_UNSIGNED_INTEGER then Inr (p\<lparr>data := Size_t v\<rparr>)
      else Inl InvalidParameterType)"

text \<open>The bytes behind a \<open>data\<close> pointer read as a string (\<open>const char *algoname = p->data\<close>).\<close>

fun buffer_of :: "param_data \<Rightarrow> bytes" where
  "buffer_of (Buffer b) = b"
| "buffer_of (Size_t n) = []"

subsection \<open>Collaborator: the CMAC primitive\<close>

text \<open>
  Modelled from the spec: \<open>CMAC_CTX_new\<close>, \<open>CMAC_CTX_free\<close>, \<open>CMAC_CTX_copy\<close>,
  \<open>CMAC_CTX_get0_cipher_ctx\<close>, \<open>EVP_CIPHER_CTX_block_size\<close>, \<open>CMAC_Init\<close>,
  \<open>CMAC_Update\<close> and \<open>CMAC_Final\<close> (crypto/cmac and crypto/evp are not among the
  sources). The spec's collaborator is "\<open>bind(cipher, engine, key, keyLen) ->
  ComputationState | Error\<close>, \<open>absorb(state, bytes)\<close>, \<open>drain(state) -> bytes\<close>,
  \<open>copy(state) -> state\<close>", with the state machine "\<open>Empty \<rightarrow> Configured (cipher
  staged) \<rightarrow> Bound (key consumed, computation state live) \<rightarrow> [Updated]* \<rightarrow> Finalized\<close>".

  \<^item> A new context is empty: no cipher, no key, nothing absorbed.
  \<^item> \<open>copy\<close> "deep-copies \<open>computationState\<close> (value copy, not shared)"; it can fail
    ("state-copy failure"), which the model ties to the allocator the deep copy needs.
  \<^item> \<open>outputSize\<close> is "derived from the bound cipher's block size; not independently
    stored, always queried live from the bound cipher": with no cipher in the cipher
    context there is no descriptor to read.
  \<^item> \<open>CMAC_Init\<close> with a cipher records cipher and engine in the cipher context; with a
    key it needs a cipher ("a cipher must be resolved before init succeeds", else
    \<open>NotConfigured\<close>) that accepts the key (else \<open>BindingFailure\<close>) and makes the state
    live; with neither cipher, engine nor key it is the "fresh init" that re-uses a
    bound context, and "fails if no cipher has been staged (\<open>Empty\<close> state)".
  \<^item> \<open>CMAC_Update\<close> is "valid only from \<open>Bound\<close> or \<open>Updated\<close>", "not valid before
    \<open>Bound\<close> (fails) or after \<open>Finalized\<close> (fails)" (\<open>InvalidState\<close>).
  \<^item> \<open>CMAC_Final\<close> "writes exactly \<open>outputSize\<close> bytes, transitions to \<open>Finalized\<close>" and
    "is terminal for that context instance".
\<close>

definition new_cmac :: CMAC_CTX where
  "new_cmac = \<lparr>cctx = \<lparr>cipher = None, engine = None, cipher_key = None\<rparr>,
              absorbed = [], finalized = False\<rparr>"

definition CMAC_CTX_new :: "world \<Rightarrow> addr option \<times> world" where
  "CMAC_CTX_new w =
     (if mem_avail w = 0 then (None, w)
      else (Some (next_addr w),
            w\<lparr>cmac_ctxs := (cmac_ctxs w)(next_addr w \<mapsto> new_cmac),
              next_addr := next_addr w + 1,
              mem_avail := mem_avail w - 1\<rparr>))"

definition CMAC_CTX_free :: "world \<Rightarrow> addr option \<Rightarrow> world" where
  "CMAC_CTX_free w p =
     (case p of None \<Rightarrow> w | Some c \<Rightarrow> w\<lparr>cmac_ctxs := (cmac_ctxs w)(c := None)\<rparr>)"

text \<open>Dereferencing a \<open>CMAC_CTX *\<close>: undefined for \<open>NULL\<close> and for a pointer to no live object.\<close>

definition deref_cmac :: "world \<Rightarrow> addr option \<Rightarrow> (addr \<times> CMAC_CTX) option" where
  "deref_cmac w p = do { c \<leftarrow> p; x \<leftarrow> cmac_ctxs w c; Some (c, x) }"

definition store_cmac :: "world \<Rightarrow> addr \<Rightarrow> CMAC_CTX \<Rightarrow> world" where
  "store_cmac w c x = w\<lparr>cmac_ctxs := (cmac_ctxs w)(c \<mapsto> x)\<rparr>"

definition CMAC_CTX_copy :: "world \<Rightarrow> addr option \<Rightarrow> addr option \<Rightarrow> (error + unit) res" where
  "CMAC_CTX_copy w out inp = do {
     (o_at, o_val) \<leftarrow> deref_cmac w out;
     (i_at, i_val) \<leftarrow> deref_cmac w inp;
     if mem_avail w = 0 then Some (Inl AllocationFailure, w)
     else Some (Inr (), (store_cmac w o_at i_val)\<lparr>mem_avail := mem_avail w - 1\<rparr>)
   }"

definition CMAC_CTX_get0_cipher_ctx :: "CMAC_CTX \<Rightarrow> EVP_CIPHER_CTX" where
  "CMAC_CTX_get0_cipher_ctx x = cctx x"

definition EVP_CIPHER_CTX_block_size :: "world \<Rightarrow> EVP_CIPHER_CTX \<Rightarrow> nat option" where
  "EVP_CIPHER_CTX_block_size w cc = do {
     c \<leftarrow> cipher cc;
     d \<leftarrow> cipher_desc w c;
     Some (block_size d)
   }"

definition CMAC_Init ::
  "world \<Rightarrow> addr option \<Rightarrow> bytes option \<Rightarrow> addr option \<Rightarrow> addr option \<Rightarrow> (error + unit) res" where
  "CMAC_Init w p k c impl = do {
     (at, x) \<leftarrow> deref_cmac w p;
     if k = None \<and> c = None \<and> impl = None then
       (if cipher_key (cctx x) = None then Some (Inl NotConfigured, w)
        else Some (Inr (), store_cmac w at (x\<lparr>absorbed := [], finalized := False\<rparr>)))
     else
       (let cc = (if c = None then cctx x else (cctx x)\<lparr>cipher := c, engine := impl\<rparr>) in
        case k of
          None \<Rightarrow> Some (Inr (), store_cmac w at (x\<lparr>cctx := cc\<rparr>))
        | Some kbytes \<Rightarrow>
            (case cipher cc of
               None \<Rightarrow> Some (Inl NotConfigured, w)
             | Some ch \<Rightarrow> do {
                 d \<leftarrow> cipher_desc w ch;
                 if length kbytes \<noteq> key_length d then Some (Inl BindingFailure, w)
                 else Some (Inr (), store_cmac w at
                        \<lparr>cctx = cc\<lparr>cipher_key := Some kbytes\<rparr>, absorbed = [], finalized = False\<rparr>)
               }))
   }"

definition CMAC_Update :: "world \<Rightarrow> addr option \<Rightarrow> bytes \<Rightarrow> (error + unit) res" where
  "CMAC_Update w p d = do {
     (at, x) \<leftarrow> deref_cmac w p;
     if cipher_key (cctx x) = None \<or> finalized x then Some (Inl InvalidState, w)
     else Some (Inr (), store_cmac w at (x\<lparr>absorbed := absorbed x @ d\<rparr>))
   }"

definition CMAC_Final :: "world \<Rightarrow> addr option \<Rightarrow> (error + mac_byte list \<times> nat) res" where
  "CMAC_Final w p = do {
     (at, x) \<leftarrow> deref_cmac w p;
     case cipher_key (cctx x) of
       None \<Rightarrow> Some (Inl InvalidState, w)
     | Some kbytes \<Rightarrow>
         if finalized x then Some (Inl InvalidState, w)
         else do {
           c \<leftarrow> cipher (cctx x);
           bl \<leftarrow> EVP_CIPHER_CTX_block_size w (cctx x);
           Some (Inr (map (MacByte c kbytes (absorbed x)) [0..<bl], bl),
                 store_cmac w at (x\<lparr>finalized := True\<rparr>))
         }
   }"

subsection \<open>The functions of cmac_prov.c\<close>

text \<open>\<open>cmac_new\<close>, lines 58-71.\<close>

definition cmac_new :: "world \<Rightarrow> nat \<Rightarrow> addr option \<times> world" where
  "cmac_new w pctx =
     (case OPENSSL_zalloc w of
        (None, w1) \<Rightarrow> (None, OPENSSL_free w1 None)
      | (Some a, w1) \<Rightarrow>
          (case CMAC_CTX_new w1 of
             (None, w2) \<Rightarrow> (None, OPENSSL_free w2 (Some a))
           | (Some c, w2) \<Rightarrow>
               (Some a, store_macctx w2 a (zeroed\<lparr>ctx := Some c, provctx := pctx\<rparr>))))"

text \<open>\<open>cmac_free\<close>, lines 73-82.\<close>

definition cmac_free :: "world \<Rightarrow> addr option \<Rightarrow> world option" where
  "cmac_free w vmacctx =
     (case vmacctx of
        None \<Rightarrow> Some w
      | Some a \<Rightarrow> do {
          macctx \<leftarrow> macctxs w a;
          let w1 = CMAC_CTX_free w (ctx macctx);
          let w2 = EVP_CIPHER_meth_free w1 (alloc_cipher macctx);
          Some (OPENSSL_free w2 (Some a))
        })"

text \<open>
  \<open>cmac_dup\<close>, lines 84-103. \<open>dst\<close> is what \<open>cmac_new\<close> returned, \<open>NULL\<close> included;
  \<open>dst->ctx\<close> is read from it without a test.
\<close>

definition cmac_dup :: "world \<Rightarrow> addr \<Rightarrow> (error + addr) res" where
  "cmac_dup w vsrc = do {
     src \<leftarrow> macctxs w vsrc;
     let (dst, w1) = cmac_new w (provctx src);
     d \<leftarrow> dst;
     dm \<leftarrow> macctxs w1 d;
     (copied, w2) \<leftarrow> CMAC_CTX_copy w1 (ctx dm) (ctx src);
     case copied of
       Inl e \<Rightarrow> do { w3 \<leftarrow> cmac_free w2 dst; Some (Inl e, w3) }
     | Inr u \<Rightarrow>
         (let (up, w3) = (case alloc_cipher src of
                            None \<Rightarrow> (True, w2)
                          | Some c \<Rightarrow> EVP_CIPHER_up_ref w2 c)
          in if \<not> up then do { w4 \<leftarrow> cmac_free w3 dst; Some (Inl RefCountFailure, w4) }
             else Some (Inr d, store_macctx w3 d
                   (dm\<lparr>tmpengine := tmpengine src, tmpcipher := tmpcipher src,
                      alloc_cipher := alloc_cipher src\<rparr>)))
   }"

text \<open>\<open>cmac_size\<close>, lines 105-110. It reads the cipher context of \<open>macctx->ctx\<close> only.\<close>

definition cmac_size :: "world \<Rightarrow> addr \<Rightarrow> nat option" where
  "cmac_size w vmacctx = do {
     macctx \<leftarrow> macctxs w vmacctx;
     (at, x) \<leftarrow> deref_cmac w (ctx macctx);
     EVP_CIPHER_CTX_block_size w (CMAC_CTX_get0_cipher_ctx x)
   }"

text \<open>\<open>cmac_init\<close>, lines 112-122: the staged fields are cleared whatever \<open>CMAC_Init\<close> returned.\<close>

definition cmac_init :: "world \<Rightarrow> addr \<Rightarrow> (error + unit) res" where
  "cmac_init w vmacctx = do {
     macctx \<leftarrow> macctxs w vmacctx;
     (rv, w1) \<leftarrow> CMAC_Init w (ctx macctx) None (tmpcipher macctx) (tmpengine macctx);
     Some (rv, store_macctx w1 vmacctx (macctx\<lparr>tmpcipher := None, tmpengine := None\<rparr>))
   }"

text \<open>\<open>cmac_update\<close>, lines 124-130.\<close>

definition cmac_update :: "world \<Rightarrow> addr \<Rightarrow> bytes \<Rightarrow> (error + unit) res" where
  "cmac_update w vmacctx d = do {
     macctx \<leftarrow> macctxs w vmacctx;
     CMAC_Update w (ctx macctx) d
   }"

text \<open>
  \<open>cmac_final\<close>, lines 132-138. The result is what is written through \<open>out\<close> and
  \<open>outl\<close>; the parameter \<open>outsize\<close> (the capacity of \<open>out\<close>) is not used by the body.
\<close>

definition cmac_final :: "world \<Rightarrow> addr \<Rightarrow> nat \<Rightarrow> (error + mac_byte list \<times> nat) res" where
  "cmac_final w vmacctx outsize = do {
     macctx \<leftarrow> macctxs w vmacctx;
     CMAC_Final w (ctx macctx)
   }"

text \<open>\<open>cmac_get_ctx_params\<close>, lines 149-157: the result is the parameter array as filled in.\<close>

definition cmac_get_ctx_params ::
  "world \<Rightarrow> addr \<Rightarrow> OSSL_PARAM list \<Rightarrow> (error + OSSL_PARAM list) option" where
  "cmac_get_ctx_params w vmacctx params =
     (case OSSL_PARAM_locate params OSSL_MAC_PARAM_SIZE of
        Some i \<Rightarrow> do {
          sz \<leftarrow> cmac_size w vmacctx;
          Some (case OSSL_PARAM_set_size_t (params ! i) sz of
                  Inl e \<Rightarrow> Inl e
                | Inr p \<Rightarrow> Inr (params[i := p]))
        }
      | None \<Rightarrow> Some (Inr params))"

text \<open>
  \<open>cmac_set_ctx_params\<close>, lines 174-240, in the three blocks of the source: the engine
  block (lines 188-201, compiled out under \<open>FIPS_MODE\<close> or \<open>OPENSSL_NO_ENGINE\<close>), the
  cipher block around it (lines 179-227) and the key block (lines 228-238). A block works
  on the struct \<open>macctx\<close> points to and hands it on; \<open>cmac_set_ctx_params\<close> stores it
  back, whichever \<open>return\<close> was taken, since the C code updates the struct in place.
\<close>

definition set_engine ::
  "world \<Rightarrow> cmac_data_st \<Rightarrow> OSSL_PARAM list \<Rightarrow> (error + unit) \<times> world \<times> cmac_data_st" where
  "set_engine w macctx params =
     (if fips_mode w \<or> no_engine w then (Inr (), w, macctx)
      else
        (let w1 = ENGINE_finish w (tmpengine macctx);
             m1 = macctx\<lparr>tmpengine := None\<rparr>
         in case OSSL_PARAM_locate_const params OSSL_MAC_PARAM_ENGINE of
              None \<Rightarrow> (Inr (), w1, m1)
            | Some p \<Rightarrow>
                if data_type p \<noteq> OSSL_PARAM_UTF8_STRING then (Inl InvalidParameterType, w1, m1)
                else
                  (let (e, w2) = ENGINE_by_id w1 (buffer_of (data p));
                       m2 = m1\<lparr>tmpengine := e\<rparr>
                   in if tmpengine m2 = None then (Inl UnresolvedEngine, w2, m2)
                      else (Inr (), w2, m2))))"

definition fetch_cipher ::
  "world \<Rightarrow> cmac_data_st \<Rightarrow> string \<Rightarrow> string option \<Rightarrow>
     (error + unit) \<times> world \<times> cmac_data_st" where
  "fetch_cipher w macctx algoname propquery =
     (let w1 = EVP_CIPHER_meth_free w (alloc_cipher macctx);
          (c, w2) = EVP_CIPHER_fetch w1 (PROV_LIBRARY_CONTEXT_OF (provctx macctx))
                      algoname propquery;
          m1 = macctx\<lparr>alloc_cipher := c, tmpcipher := c\<rparr>;
          m2 = (if \<not> fips_mode w \<and> tmpcipher m1 = None
                then m1\<lparr>tmpcipher := EVP_get_cipherbyname w2 algoname\<rparr> else m1)
      in if tmpcipher m2 = None then (Inl UnresolvedCipher, w2, m2) else (Inr (), w2, m2))"

definition set_cipher ::
  "world \<Rightarrow> cmac_data_st \<Rightarrow> OSSL_PARAM list \<Rightarrow> (error + unit) \<times> world \<times> cmac_data_st" where
  "set_cipher w macctx params =
     (case OSSL_PARAM_locate_const params OSSL_MAC_PARAM_CIPHER of
        None \<Rightarrow> (Inr (), w, macctx)
      | Some p \<Rightarrow>
          if data_type p \<noteq> OSSL_PARAM_UTF8_STRING then (Inl InvalidParameterType, w, macctx)
          else
            (let algoname = buffer_of (data p) in
             case set_engine w macctx params of
               (Inl e, w1, m1) \<Rightarrow> (Inl e, w1, m1)
             | (Inr u, w1, m1) \<Rightarrow>
                 (case OSSL_PARAM_locate_const params OSSL_MAC_PARAM_PROPERTIES of
                    Some pq \<Rightarrow>
                      if data_type pq \<noteq> OSSL_PARAM_UTF8_STRING
                      then (Inl InvalidParameterType, w1, m1)
                      else fetch_cipher w1 m1 algoname (Some (buffer_of (data pq)))
                  | None \<Rightarrow> fetch_cipher w1 m1 algoname None)))"

definition set_key ::
  "world \<Rightarrow> cmac_data_st \<Rightarrow> OSSL_PARAM list \<Rightarrow> ((error + unit) \<times> world \<times> cmac_data_st) option" where
  "set_key w macctx params =
     (case OSSL_PARAM_locate_const params OSSL_MAC_PARAM_KEY of
        None \<Rightarrow> Some (Inr (), w, macctx)
      | Some p \<Rightarrow>
          if data_type p \<noteq> OSSL_PARAM_OCTET_STRING then Some (Inl InvalidParameterType, w, macctx)
          else do {
            (rv, w1) \<leftarrow> CMAC_Init w (ctx macctx) (Some (buffer_of (data p)))
                          (tmpcipher macctx) (tmpengine macctx);
            case rv of
              Inl e \<Rightarrow> Some (Inl e, w1, macctx)
            | Inr u \<Rightarrow> Some (Inr (), w1, macctx\<lparr>tmpcipher := None, tmpengine := None\<rparr>)
          })"

definition cmac_set_ctx_params :: "world \<Rightarrow> addr \<Rightarrow> OSSL_PARAM list \<Rightarrow> (error + unit) res" where
  "cmac_set_ctx_params w vmacctx params = do {
     macctx \<leftarrow> macctxs w vmacctx;
     case set_cipher w macctx params of
       (Inl e, w1, m1) \<Rightarrow> Some (Inl e, store_macctx w1 vmacctx m1)
     | (Inr u, w1, m1) \<Rightarrow> do {
         (rv, w2, m2) \<leftarrow> set_key w1 m1 params;
         Some (rv, store_macctx w2 vmacctx m2)
       }
   }"

subsection \<open>Properties of a state that the statements below speak about\<close>

text \<open>The reference that a context holds on a fetched cipher: one for the handle in
  \<open>alloc_cipher\<close>, none for any other handle.\<close>

definition owned :: "cmac_data_st \<Rightarrow> addr \<Rightarrow> nat" where
  "owned m h = (if alloc_cipher m = Some h then 1 else 0)"

text \<open>A set call selects a cipher when it reaches the resolution of line 211: a "cipher"
  entry of string type, an engine block that returned normally and, if present, a
  "properties" entry of string type.\<close>

definition selects_cipher :: "world \<Rightarrow> cmac_data_st \<Rightarrow> OSSL_PARAM list \<Rightarrow> bool" where
  "selects_cipher w m params =
     (case OSSL_PARAM_locate_const params OSSL_MAC_PARAM_CIPHER of
        None \<Rightarrow> False
      | Some p \<Rightarrow>
          data_type p = OSSL_PARAM_UTF8_STRING \<and> fst (set_engine w m params) = Inr () \<and>
          (case OSSL_PARAM_locate_const params OSSL_MAC_PARAM_PROPERTIES of
             None \<Rightarrow> True
           | Some pq \<Rightarrow> data_type pq = OSSL_PARAM_UTF8_STRING))"

text \<open>The allocator's invariant: no live object at or beyond the next address.\<close>

definition alloc_inv :: "world \<Rightarrow> bool" where
  "alloc_inv w = (\<forall>a. next_addr w \<le> a \<longrightarrow> macctxs w a = None \<and> cmac_ctxs w a = None)"

text \<open>A step that allocates nothing: the allocator is where it was and no object has
  appeared in either heap.\<close>

definition same_heap :: "world \<Rightarrow> world \<Rightarrow> bool" where
  "same_heap w w' = (next_addr w' = next_addr w \<and> dom (macctxs w') \<subseteq> dom (macctxs w) \<and>
                    dom (cmac_ctxs w') \<subseteq> dom (cmac_ctxs w))"

text \<open>A context that no key has been bound into.\<close>

definition unbound :: "world \<Rightarrow> addr \<Rightarrow> bool" where
  "unbound w a =
     (case macctxs w a of
        None \<Rightarrow> False
      | Some m \<Rightarrow>
          (case deref_cmac w (ctx m) of
             None \<Rightarrow> False
           | Some (at, x) \<Rightarrow> cipher_key (cctx x) = None))"

text \<open>The cipher that is staged when the key block of a set call runs: what the cipher
  block (lines 179-227) has left in \<open>tmpcipher\<close>, be it the cipher that an earlier call
  staged or the one that this call resolves.\<close>

definition staged_by :: "world \<Rightarrow> cmac_data_st \<Rightarrow> OSSL_PARAM list \<Rightarrow> addr option" where
  "staged_by w m params = tmpcipher (snd (snd (set_cipher w m params)))"

text \<open>A context whose staged cipher and staged engine are both \<open>NULL\<close>.\<close>

definition staged_cleared :: "world \<Rightarrow> addr \<Rightarrow> bool" where
  "staged_cleared w a =
     (case macctxs w a of
        None \<Rightarrow> False
      | Some m \<Rightarrow> tmpcipher m = None \<and> tmpengine m = None)"

subsection \<open>A concrete run\<close>

text \<open>
  A registry with two fetchable ciphers and one engine, an allocator that can satisfy six
  requests, and the states that the calls \<open>new\<close>, \<open>set(cipher)\<close>, \<open>set(key)\<close>,
  \<open>set(cipher, engine)\<close> and \<open>dup\<close> lead through.
\<close>

definition aes_128_cbc :: EVP_CIPHER where
  "aes_128_cbc = \<lparr>block_size = 16, key_length = 16\<rparr>"

definition des_ede3_cbc :: EVP_CIPHER where
  "des_ede3_cbc = \<lparr>block_size = 8, key_length = 24\<rparr>"

definition world0 :: world where
  "world0 = \<lparr>macctxs = Map.empty, cmac_ctxs = Map.empty, next_addr = 10, mem_avail = 6,
     cipher_desc = [100 \<mapsto> aes_128_cbc, 101 \<mapsto> des_ede3_cbc],
     cipher_refs = (\<lambda>c. 0),
     fetch_tab = [(0, ''AES-128-CBC'', None) \<mapsto> 100, (0, ''DES-EDE3-CBC'', None) \<mapsto> 101],
     legacy_tab = Map.empty,
     engine_tab = [''e1'' \<mapsto> 200],
     engine_refs = (\<lambda>e. 0),
     atomics_ok = True, fips_mode = False, no_engine = False\<rparr>"

definition cipher_param :: "string \<Rightarrow> OSSL_PARAM" where
  "cipher_param n = \<lparr>key = ''cipher'', data_type = OSSL_PARAM_UTF8_STRING, data = Buffer n\<rparr>"

definition engine_param :: "string \<Rightarrow> OSSL_PARAM" where
  "engine_param n = \<lparr>key = ''engine'', data_type = OSSL_PARAM_UTF8_STRING, data = Buffer n\<rparr>"

definition key_param :: "bytes \<Rightarrow> OSSL_PARAM" where
  "key_param k = \<lparr>key = ''key'', data_type = OSSL_PARAM_OCTET_STRING, data = Buffer k\<rparr>"

definition size_request :: OSSL_PARAM where
  "size_request = \<lparr>key = ''size'', data_type = OSSL_PARAM_UNSIGNED_INTEGER, data = Size_t 0\<rparr>"

definition zero_key :: bytes where
  "zero_key = replicate 16 (CHR 0x00)"

definition fresh_macctx :: cmac_data_st where
  "fresh_macctx = \<lparr>provctx = 0, ctx = Some 11, tmpcipher = None, alloc_cipher = None,
                   tmpengine = None\<rparr>"

definition staged_macctx :: cmac_data_st where
  "staged_macctx = \<lparr>provctx = 0, ctx = Some 11, tmpcipher = Some 100, alloc_cipher = Some 100,
                    tmpengine = None\<rparr>"

definition staged_des_macctx :: cmac_data_st where
  "staged_des_macctx = \<lparr>provctx = 0, ctx = Some 11, tmpcipher = Some 101,
                        alloc_cipher = Some 101, tmpengine = None\<rparr>"

definition engine_macctx :: cmac_data_st where
  "engine_macctx = \<lparr>provctx = 0, ctx = Some 11, tmpcipher = Some 100, alloc_cipher = Some 100,
                    tmpengine = Some 200\<rparr>"

definition bound_macctx :: cmac_data_st where
  "bound_macctx = \<lparr>provctx = 0, ctx = Some 11, tmpcipher = None, alloc_cipher = Some 100,
                   tmpengine = None\<rparr>"

definition dup_macctx :: cmac_data_st where
  "dup_macctx = \<lparr>provctx = 0, ctx = Some 13, tmpcipher = None, alloc_cipher = Some 100,
                 tmpengine = None\<rparr>"

definition bound_cmac :: CMAC_CTX where
  "bound_cmac = \<lparr>cctx = \<lparr>cipher = Some 100, engine = None, cipher_key = Some zero_key\<rparr>,
                 absorbed = [], finalized = False\<rparr>"

definition world_new :: world where
  "world_new = world0\<lparr>macctxs := [10 \<mapsto> fresh_macctx], cmac_ctxs := [11 \<mapsto> new_cmac],
     next_addr := 12, mem_avail := 4\<rparr>"

definition world_staged :: world where
  "world_staged = world_new\<lparr>macctxs := [10 \<mapsto> staged_macctx],
     cipher_refs := (\<lambda>c. 0)(100 := 1)\<rparr>"

definition world_staged_des :: world where
  "world_staged_des = world_new\<lparr>macctxs := [10 \<mapsto> staged_des_macctx],
     cipher_refs := (\<lambda>c. 0)(101 := 1)\<rparr>"

definition world_bound :: world where
  "world_bound = world_staged\<lparr>macctxs := [10 \<mapsto> bound_macctx],
     cmac_ctxs := [11 \<mapsto> bound_cmac]\<rparr>"

definition world_engine :: world where
  "world_engine = world_new\<lparr>macctxs := [10 \<mapsto> engine_macctx],
     cipher_refs := (\<lambda>c. 0)(100 := 1), engine_refs := (\<lambda>e. 0)(200 := 1)\<rparr>"

definition world_dup :: world where
  "world_dup = world_bound\<lparr>macctxs := [10 \<mapsto> bound_macctx, 12 \<mapsto> dup_macctx],
     cmac_ctxs := [11 \<mapsto> bound_cmac, 13 \<mapsto> bound_cmac],
     next_addr := 14, mem_avail := 1,
     cipher_refs := (\<lambda>c. 0)(100 := 2)\<rparr>"

text \<open>The state after \<open>set(cipher, engine)\<close> with a cipher name that no registry knows:
  the engine is staged, no cipher is.\<close>

definition engine_only_macctx :: cmac_data_st where
  "engine_only_macctx = \<lparr>provctx = 0, ctx = Some 11, tmpcipher = None, alloc_cipher = None,
                         tmpengine = Some 200\<rparr>"

definition world_engine_only :: world where
  "world_engine_only = world_new\<lparr>macctxs := [10 \<mapsto> engine_only_macctx],
     engine_refs := (\<lambda>e. 0)(200 := 1)\<rparr>"

text \<open>The bound state with an allocator that cannot satisfy another request.\<close>

definition world_oom :: world where
  "world_oom = world_bound\<lparr>mem_avail := 0\<rparr>"

section \<open>Lemmas\<close>

lemmas param_names = OSSL_MAC_PARAM_CIPHER_def OSSL_MAC_PARAM_ENGINE_def
  OSSL_MAC_PARAM_PROPERTIES_def OSSL_MAC_PARAM_KEY_def OSSL_MAC_PARAM_SIZE_def

lemmas run_defs = world0_def world_new_def world_staged_def world_bound_def fresh_macctx_def
  staged_macctx_def bound_macctx_def bound_cmac_def new_cmac_def zeroed_def cipher_param_def
  key_param_def aes_128_cbc_def des_ede3_cbc_def

lemmas set_defs = cmac_set_ctx_params_def set_cipher_def set_engine_def set_key_def
  fetch_cipher_def OSSL_PARAM_locate_const_def param_names ENGINE_finish_def ENGINE_by_id_def
  EVP_CIPHER_meth_free_def EVP_CIPHER_fetch_def EVP_get_cipherbyname_def
  PROV_LIBRARY_CONTEXT_OF_def CMAC_Init_def deref_cmac_def store_cmac_def store_macctx_def

subsection \<open>The concrete run is a run of the code\<close>

lemma run_new: "cmac_new world0 0 = (Some 10, world_new)"
  by (simp add: cmac_new_def OPENSSL_zalloc_def CMAC_CTX_new_def store_macctx_def run_defs)

lemma run_stage:
  "cmac_set_ctx_params world_new 10 [cipher_param ''AES-128-CBC''] = Some (Inr (), world_staged)"
  by (simp add: set_defs run_defs)

lemma run_stage_des:
  "cmac_set_ctx_params world_new 10 [cipher_param ''DES-EDE3-CBC'']
     = Some (Inr (), world_staged_des)"
  by (simp add: set_defs run_defs world_staged_des_def staged_des_macctx_def)

lemma run_bind:
  "cmac_set_ctx_params world_staged 10 [key_param zero_key] = Some (Inr (), world_bound)"
  by (simp add: set_defs run_defs zero_key_def)

lemma run_bind_once:
  "cmac_set_ctx_params world_new 10 [cipher_param ''AES-128-CBC'', key_param zero_key]
     = Some (Inr (), world_bound)"
  by (simp add: set_defs run_defs zero_key_def)

lemma run_engine:
  "cmac_set_ctx_params world_new 10 [cipher_param ''AES-128-CBC'', engine_param ''e1'']
     = Some (Inr (), world_engine)"
  by (simp add: set_defs run_defs world_engine_def engine_macctx_def engine_param_def)

lemma run_engine_only:
  "cmac_set_ctx_params world_new 10 [cipher_param ''NO-SUCH'', engine_param ''e1'']
     = Some (Inl UnresolvedCipher, world_engine_only)"
  by (simp add: set_defs run_defs world_engine_only_def engine_only_macctx_def
      engine_param_def)

lemma run_dup: "cmac_dup world_bound 10 = Some (Inr 12, world_dup)"
  by (simp add: cmac_dup_def cmac_new_def OPENSSL_zalloc_def CMAC_CTX_new_def CMAC_CTX_copy_def
      EVP_CIPHER_up_ref_def deref_cmac_def store_cmac_def store_macctx_def run_defs
      world_dup_def dup_macctx_def fun_upd_twist numeral_2_eq_2)

lemma alloc_inv_bound: "alloc_inv world_bound"
  by (simp add: alloc_inv_def run_defs)

lemma staged_live: "macctxs world_staged 10 = Some staged_macctx"
  by (simp add: run_defs)

lemma bound_live: "macctxs world_bound 10 = Some bound_macctx"
  by (simp add: run_defs)

lemma bound_ctx: "ctx bound_macctx = Some 11"
  by (simp add: run_defs)

lemma bound_cmac_live: "cmac_ctxs world_bound 11 = Some bound_cmac"
  by (simp add: run_defs)

lemma bound_deref: "deref_cmac world_bound (ctx bound_macctx) = Some (11, bound_cmac)"
  by (simp add: deref_cmac_def bound_ctx bound_cmac_live)

lemma bound_key: "cipher_key (cctx bound_cmac) = Some zero_key"
  by (simp add: run_defs)

lemma bound_not_final: "\<not> finalized bound_cmac"
  by (simp add: run_defs)

lemma bound_cipher: "cipher (cctx bound_cmac) = Some 100"
  by (simp add: run_defs)

lemma bound_desc: "cipher_desc world_bound 100 = Some aes_128_cbc"
  by (simp add: run_defs)

lemma staged_desc: "cipher_desc world_staged 100 = Some aes_128_cbc"
  by (simp add: run_defs)

lemma aes_block: "block_size aes_128_cbc = 16"
  by (simp add: run_defs)

lemma bound_absorbed: "absorbed bound_cmac = []"
  by (simp add: run_defs)

subsection \<open>The allocator's invariant is kept by every function of the file\<close>

lemma alloc_inv_same_heap: "alloc_inv w \<Longrightarrow> same_heap w w' \<Longrightarrow> alloc_inv w'"
  by (fastforce simp: alloc_inv_def same_heap_def)

lemma alloc_inv_world0: "alloc_inv world0"
  by (simp add: alloc_inv_def world0_def)

lemma alloc_inv_new: "alloc_inv w \<Longrightarrow> alloc_inv (snd (cmac_new w p))"
  by (auto simp: alloc_inv_def cmac_new_def OPENSSL_zalloc_def CMAC_CTX_new_def OPENSSL_free_def
      store_macctx_def split: if_splits)

lemma same_heap_CMAC_Init: "CMAC_Init w p k c e = Some (rv, w') \<Longrightarrow> same_heap w w'"
  by (auto simp: same_heap_def CMAC_Init_def store_cmac_def deref_cmac_def Let_def
      split: bind_splits if_splits option.splits)

lemma same_heap_store: "macctxs w a = Some m \<Longrightarrow> same_heap w w1 \<Longrightarrow> same_heap w (store_macctx w1 a m')"
  by (auto simp: same_heap_def store_macctx_def)

lemma same_heap_init: "cmac_init w a = Some (rv, w') \<Longrightarrow> same_heap w w'"
  by (auto simp: cmac_init_def split: bind_splits intro!: same_heap_store dest: same_heap_CMAC_Init)

lemma same_heap_update: "cmac_update w a d = Some (rv, w') \<Longrightarrow> same_heap w w'"
  by (auto simp: same_heap_def cmac_update_def CMAC_Update_def store_cmac_def deref_cmac_def
      split: bind_splits if_splits)

lemma same_heap_final: "cmac_final w a n = Some (rv, w') \<Longrightarrow> same_heap w w'"
  by (auto simp: same_heap_def cmac_final_def CMAC_Final_def store_cmac_def deref_cmac_def
      split: bind_splits if_splits option.splits)

lemma same_heap_free: "cmac_free w p = Some w' \<Longrightarrow> same_heap w w'"
  by (auto simp: same_heap_def cmac_free_def CMAC_CTX_free_def EVP_CIPHER_meth_free_def
      OPENSSL_free_def Let_def split: bind_splits if_splits option.splits)

lemma same_heap_set_engine: "set_engine w m ps = (rv, w', m') \<Longrightarrow> same_heap w w'"
  by (auto simp: same_heap_def set_engine_def ENGINE_finish_def ENGINE_by_id_def Let_def
      split: if_splits option.splits prod.splits)

lemma same_heap_fetch_cipher: "fetch_cipher w m n q = (rv, w', m') \<Longrightarrow> same_heap w w'"
  by (auto simp: same_heap_def fetch_cipher_def EVP_CIPHER_meth_free_def EVP_CIPHER_fetch_def Let_def
      split: if_splits option.splits prod.splits)

lemma same_heap_trans: "same_heap w w1 \<Longrightarrow> same_heap w1 w2 \<Longrightarrow> same_heap w w2"
  unfolding same_heap_def by (metis subset_trans)

lemma same_heap_refl: "same_heap w w"
  by (simp add: same_heap_def)

lemma same_heap_set_cipher:
  assumes "set_cipher w m ps = (rv, w', m')"
  shows "same_heap w w'"
proof -
  obtain re we me where se: "set_engine w m ps = (re, we, me)"
    by (cases "set_engine w m ps") auto
  note e = same_heap_set_engine[OF se]
  have "same_heap we w' \<or> w' = w"
    using assms se
    by (auto simp: set_cipher_def Let_def same_heap_refl
        split: option.splits if_splits sum.splits dest: same_heap_fetch_cipher)
  with e show ?thesis
    using same_heap_trans same_heap_refl by blast
qed

lemma same_heap_set_key: "set_key w m ps = Some (rv, w', m') \<Longrightarrow> same_heap w w'"
  by (auto simp: set_key_def same_heap_refl split: option.splits if_splits bind_splits sum.splits
      dest: same_heap_CMAC_Init)

lemma same_heap_set:
  assumes "cmac_set_ctx_params w a ps = Some (rv, w')"
  shows "same_heap w w'"
proof -
  from assms obtain m where m: "macctxs w a = Some m"
    by (auto simp: cmac_set_ctx_params_def split: bind_splits)
  obtain rc wc mc where sc: "set_cipher w m ps = (rc, wc, mc)"
    by (cases "set_cipher w m ps") auto
  note c = same_heap_set_cipher[OF sc]
  show ?thesis
  proof (cases rc)
    case (Inl e)
    with assms m sc have "w' = store_macctx wc a mc"
      by (simp add: cmac_set_ctx_params_def)
    with same_heap_store[OF m c] show ?thesis by simp
  next
    case (Inr u)
    with assms m sc obtain wk mk where sk: "set_key wc mc ps = Some (rv, wk, mk)"
      and w': "w' = store_macctx wk a mk"
      by (auto simp: cmac_set_ctx_params_def split: bind_splits)
    from same_heap_trans[OF c same_heap_set_key[OF sk]] same_heap_store[OF m] w'
    show ?thesis by simp
  qed
qed

lemma same_heap_copy: "CMAC_CTX_copy w p q = Some (rv, w') \<Longrightarrow> same_heap w w'"
  by (auto simp: same_heap_def CMAC_CTX_copy_def store_cmac_def deref_cmac_def
      split: bind_splits if_splits)

lemma same_heap_up_ref: "EVP_CIPHER_up_ref w c = (up, w') \<Longrightarrow> same_heap w w'"
  by (auto simp: same_heap_def EVP_CIPHER_up_ref_def split: if_splits)

lemma alloc_inv_dup:
  assumes "alloc_inv w" "cmac_dup w a = Some (rv, w')"
  shows "alloc_inv w'"
proof -
  from assms(2) obtain src where src: "macctxs w a = Some src"
    by (auto simp: cmac_dup_def split: bind_splits)
  obtain dst w1 where new: "cmac_new w (provctx src) = (dst, w1)"
    by (cases "cmac_new w (provctx src)") auto
  from alloc_inv_new[OF assms(1), of "provctx src"] new have i1: "alloc_inv w1" by simp
  from assms(2) src new obtain d dm copied w2 where d: "dst = Some d" "macctxs w1 d = Some dm"
    and cp: "CMAC_CTX_copy w1 (ctx dm) (ctx src) = Some (copied, w2)"
    by (auto simp: cmac_dup_def split: bind_splits)
  note i2 = alloc_inv_same_heap[OF i1 same_heap_copy[OF cp]]
  have l2: "macctxs w2 d = Some dm" using cp d
    by (auto simp: CMAC_CTX_copy_def store_cmac_def split: bind_splits if_splits)
  show ?thesis
  proof (cases copied)
    case (Inl e)
    with assms(2) src new d cp obtain w3 where "cmac_free w2 dst = Some w3" "w' = w3"
      by (auto simp: cmac_dup_def split: bind_splits)
    with i2 show ?thesis using alloc_inv_same_heap same_heap_free by blast
  next
    case (Inr u)
    obtain up w3 where up: "(case alloc_cipher src of None \<Rightarrow> (True, w2)
                          | Some c \<Rightarrow> EVP_CIPHER_up_ref w2 c) = (up, w3)"
      by (cases "(case alloc_cipher src of None \<Rightarrow> (True, w2)
                          | Some c \<Rightarrow> EVP_CIPHER_up_ref w2 c)") auto
    then have sh: "same_heap w2 w3"
      by (auto simp: same_heap_refl split: option.splits dest: same_heap_up_ref)
    note i3 = alloc_inv_same_heap[OF i2 sh]
    show ?thesis
    proof (cases up)
      case True
      with assms(2) src new d cp Inr up have "w' = store_macctx w3 d
                   (dm\<lparr>tmpengine := tmpengine src, tmpcipher := tmpcipher src,
                      alloc_cipher := alloc_cipher src\<rparr>)"
        by (auto simp: cmac_dup_def split: bind_splits)
      with i2 sh l2 show ?thesis
        using alloc_inv_same_heap same_heap_store by blast
    next
      case False
      with assms(2) src new d cp Inr up obtain w4 where "cmac_free w3 dst = Some w4" "w' = w4"
        by (auto simp: cmac_dup_def split: bind_splits)
      with i3 show ?thesis using alloc_inv_same_heap same_heap_free by blast
    qed
  qed
qed

lemma alloc_inv_kept:
  assumes "alloc_inv w"
  shows "alloc_inv (snd (cmac_new w p))"
    and "cmac_dup w a = Some (r1, w1) \<Longrightarrow> alloc_inv w1"
    and "cmac_free w q = Some w2 \<Longrightarrow> alloc_inv w2"
    and "cmac_init w a = Some (r3, w3) \<Longrightarrow> alloc_inv w3"
    and "cmac_update w a d = Some (r4, w4) \<Longrightarrow> alloc_inv w4"
    and "cmac_final w a n = Some (r5, w5) \<Longrightarrow> alloc_inv w5"
    and "cmac_set_ctx_params w a ps = Some (r6, w6) \<Longrightarrow> alloc_inv w6"
proof -
  show "alloc_inv (snd (cmac_new w p))"
    by (rule alloc_inv_new[OF assms])
  show "cmac_dup w a = Some (r1, w1) \<Longrightarrow> alloc_inv w1"
    by (rule alloc_inv_dup[OF assms])
  show "cmac_free w q = Some w2 \<Longrightarrow> alloc_inv w2"
    by (rule alloc_inv_same_heap[OF assms same_heap_free])
  show "cmac_init w a = Some (r3, w3) \<Longrightarrow> alloc_inv w3"
    by (rule alloc_inv_same_heap[OF assms same_heap_init])
  show "cmac_update w a d = Some (r4, w4) \<Longrightarrow> alloc_inv w4"
    by (rule alloc_inv_same_heap[OF assms same_heap_update])
  show "cmac_final w a n = Some (r5, w5) \<Longrightarrow> alloc_inv w5"
    by (rule alloc_inv_same_heap[OF assms same_heap_final])
  show "cmac_set_ctx_params w a ps = Some (r6, w6) \<Longrightarrow> alloc_inv w6"
    by (rule alloc_inv_same_heap[OF assms same_heap_set])
qed

subsection \<open>Frames and characterisations\<close>

lemma store_macctx_same: "macctxs w a = Some m \<Longrightarrow> store_macctx w a m = w"
  by (simp add: store_macctx_def map_upd_triv)

lemma cmac_new_Some:
  assumes "cmac_new w p = (Some a, w1)"
  shows "a = next_addr w \<and>
         w1 = w\<lparr>macctxs := (macctxs w)(next_addr w \<mapsto>
                              zeroed\<lparr>ctx := Some (next_addr w + 1), provctx := p\<rparr>),
                cmac_ctxs := (cmac_ctxs w)(next_addr w + 1 \<mapsto> new_cmac),
                next_addr := next_addr w + 1 + 1,
                mem_avail := mem_avail w - 1 - 1\<rparr>"
  using assms
  by (auto simp: cmac_new_def OPENSSL_zalloc_def CMAC_CTX_new_def store_macctx_def
      OPENSSL_free_def split: if_splits)

lemma cmac_new_fails:
  assumes "mem_avail w < 2"
  shows "fst (cmac_new w p) = None"
  using assms
  by (auto simp: cmac_new_def OPENSSL_zalloc_def CMAC_CTX_new_def split: if_splits)

lemma cmac_new_unbound:
  assumes "cmac_new w p = (Some a, w1)"
  shows "unbound w1 a"
  using cmac_new_Some[OF assms]
  by (simp add: unbound_def deref_cmac_def zeroed_def new_cmac_def)








text \<open>When a duplication returns a copy.\<close>

lemma cmac_new_succeeds:
  assumes "2 \<le> mem_avail w"
  shows "cmac_new w p =
           (Some (next_addr w),
            w\<lparr>macctxs := (macctxs w)(next_addr w \<mapsto>
                              zeroed\<lparr>ctx := Some (next_addr w + 1), provctx := p\<rparr>),
              cmac_ctxs := (cmac_ctxs w)(next_addr w + 1 \<mapsto> new_cmac),
              next_addr := next_addr w + 1 + 1,
              mem_avail := mem_avail w - 1 - 1\<rparr>)"
  using assms
  by (simp add: cmac_new_def OPENSSL_zalloc_def CMAC_CTX_new_def store_macctx_def)

lemma cmac_dup_succeeds:
  assumes inv: "alloc_inv w"
    and src: "macctxs w vsrc = Some src" and sc: "ctx src = Some sc"
    and x: "cmac_ctxs w sc = Some x"
    and mem: "3 \<le> mem_avail w"
    and up: "atomics_ok w \<or> alloc_cipher src = None"
  shows "\<exists>vdst w'. cmac_dup w vsrc = Some (Inr vdst, w')"
proof -
  from mem have "2 \<le> mem_avail w" by simp
  note n = cmac_new_succeeds[OF this, of "provctx src"]
  from inv x have fresh: "sc \<noteq> next_addr w + 1"
    by (auto simp: alloc_inv_def)
  from src sc x mem up fresh show ?thesis
    by (auto simp: cmac_dup_def n CMAC_CTX_copy_def deref_cmac_def store_cmac_def
        EVP_CIPHER_up_ref_def zeroed_def split: option.splits)
qed

text \<open>What a successful duplication of a live context leaves behind.\<close>

lemma cmac_dup_Inr:
  assumes dup: "cmac_dup w vsrc = Some (Inr vdst, w')"
    and inv: "alloc_inv w"
    and src: "macctxs w vsrc = Some src" and sc: "ctx src = Some sc"
    and x: "cmac_ctxs w sc = Some x"
  shows "vdst = next_addr w \<and> vdst \<noteq> vsrc \<and> sc \<noteq> next_addr w + 1 \<and>
         macctxs w' = (macctxs w)(vdst \<mapsto>
            \<lparr>provctx = provctx src, ctx = Some (next_addr w + 1), tmpcipher = tmpcipher src,
               alloc_cipher = alloc_cipher src, tmpengine = tmpengine src\<rparr>) \<and>
         cmac_ctxs w' = (cmac_ctxs w)(next_addr w + 1 \<mapsto> x) \<and>
         cipher_desc w' = cipher_desc w \<and> fetch_tab w' = fetch_tab w \<and>
         cipher_refs w' = (case alloc_cipher src of None \<Rightarrow> cipher_refs w
                           | Some c \<Rightarrow> (cipher_refs w)(c := Suc (cipher_refs w c)))"
proof -
  obtain dst w1 where new: "cmac_new w (provctx src) = (dst, w1)"
    by (cases "cmac_new w (provctx src)") auto
  from dup src new have dst: "dst = Some vdst"
    by (auto simp: cmac_dup_def Let_def split: bind_splits sum.splits prod.splits if_splits)
  note n = cmac_new_Some[OF new[unfolded dst]]
  from inv src have ne: "vsrc \<noteq> next_addr w"
    by (auto simp: alloc_inv_def)
  from inv x have fresh: "sc \<noteq> next_addr w + 1"
    by (auto simp: alloc_inv_def)
  from dup src new dst n ne fresh sc x show ?thesis
    apply (simp add: cmac_dup_def Let_def)
    apply (auto simp: CMAC_CTX_copy_def deref_cmac_def store_cmac_def store_macctx_def zeroed_def
        EVP_CIPHER_up_ref_def fun_upd_twist
        split: bind_splits sum.splits prod.splits if_splits option.splits)
    done
qed

text \<open>An update through one context does not reach the MAC of a context with another
  \<open>CMAC_CTX\<close>.\<close>

lemma update_final_frame:
  assumes "macctxs w a = Some ma" "ctx ma = Some ca" "cmac_ctxs w ca = Some xa"
    and "macctxs w b = Some mb" "ctx mb = Some cb" "ca \<noteq> cb"
  shows "\<exists>r w''. cmac_update w a d = Some (r, w'') \<and>
           map_option fst (cmac_final w'' b n) = map_option fst (cmac_final w b n)"
  using assms
  by (auto simp: cmac_update_def CMAC_Update_def cmac_final_def CMAC_Final_def deref_cmac_def
      store_cmac_def EVP_CIPHER_CTX_block_size_def
      split: bind_splits option.splits if_splits)

lemma final_bound:
  assumes "macctxs w a = Some m" "deref_cmac w (ctx m) = Some (at, x)"
    and "cipher_key (cctx x) = Some k" "\<not> finalized x"
    and "cipher (cctx x) = Some c" "cipher_desc w c = Some d"
  shows "cmac_final w a n =
           Some (Inr (map (MacByte c k (absorbed x)) [0..<block_size d], block_size d),
                 store_cmac w at (x\<lparr>finalized := True\<rparr>))"
  using assms
  by (simp add: cmac_final_def CMAC_Final_def EVP_CIPHER_CTX_block_size_def)

lemma size_bound:
  assumes "macctxs w a = Some m" "deref_cmac w (ctx m) = Some (at, x)"
    and "cipher (cctx x) = Some c" "cipher_desc w c = Some d"
  shows "cmac_size w a = Some (block_size d)"
  using assms
  by (simp add: cmac_size_def EVP_CIPHER_CTX_block_size_def CMAC_CTX_get0_cipher_ctx_def)

lemma init_binds_staged:
  assumes "macctxs w a = Some m" "tmpcipher m = Some c" "cipher_desc w c = Some d"
    and "cmac_init w a = Some (Inr (), w')"
  shows "cmac_size w' a = Some (block_size d)"
  using assms
  by (auto simp: cmac_init_def CMAC_Init_def cmac_size_def EVP_CIPHER_CTX_block_size_def
      CMAC_CTX_get0_cipher_ctx_def store_macctx_def store_cmac_def deref_cmac_def
      split: bind_splits if_splits)

text \<open>The cipher block leaves the computation state and the descriptors alone.\<close>

lemma staged_by_no_cipher:
  "OSSL_PARAM_locate_const params OSSL_MAC_PARAM_CIPHER = None \<Longrightarrow> staged_by w m params = tmpcipher m"
  by (simp add: staged_by_def set_cipher_def)

lemma set_engine_keeps:
  assumes "set_engine w m params = (rv, w1, m1)"
  shows "cipher_desc w1 = cipher_desc w \<and> cmac_ctxs w1 = cmac_ctxs w \<and> ctx m1 = ctx m"
  using assms
  by (auto simp: set_engine_def ENGINE_finish_def ENGINE_by_id_def Let_def
      split: if_splits option.splits prod.splits)

lemma fetch_cipher_keeps:
  assumes "fetch_cipher w m n q = (rv, w1, m1)"
  shows "cipher_desc w1 = cipher_desc w \<and> cmac_ctxs w1 = cmac_ctxs w \<and> ctx m1 = ctx m"
  using assms
  by (auto simp: fetch_cipher_def EVP_CIPHER_meth_free_def EVP_CIPHER_fetch_def Let_def
      split: if_splits option.splits prod.splits)

lemma set_cipher_keeps:
  assumes "set_cipher w m params = (rv, w1, m1)"
  shows "cipher_desc w1 = cipher_desc w \<and> cmac_ctxs w1 = cmac_ctxs w \<and> ctx m1 = ctx m"
proof -
  obtain re we me where se: "set_engine w m params = (re, we, me)"
    by (cases "set_engine w m params") auto
  note e = set_engine_keeps[OF se]
  from assms se e show ?thesis
    by (auto simp: set_cipher_def Let_def split: option.splits if_splits sum.splits
        dest!: fetch_cipher_keeps)
qed

lemma size_frame:
  assumes "macctxs w a = Some m" "macctxs w' a = Some m'" "ctx m' = ctx m"
    and "cmac_ctxs w' = cmac_ctxs w" "cipher_desc w' = cipher_desc w"
  shows "cmac_size w' a = cmac_size w a"
  using assms
  by (simp add: cmac_size_def deref_cmac_def EVP_CIPHER_CTX_block_size_def)

lemma set_without_key_keeps_size:
  assumes key: "OSSL_PARAM_locate_const params OSSL_MAC_PARAM_KEY = None"
    and run: "cmac_set_ctx_params w a params = Some (rv, w')"
  shows "cmac_size w' a = cmac_size w a"
proof -
  from run obtain m where m: "macctxs w a = Some m"
    by (auto simp: cmac_set_ctx_params_def split: bind_splits)
  obtain rc wc mc where sc: "set_cipher w m params = (rc, wc, mc)"
    by (cases "set_cipher w m params") auto
  note k = set_cipher_keeps[OF sc]
  from run m sc key have w': "w' = store_macctx wc a mc"
    by (auto simp: cmac_set_ctx_params_def set_key_def split: sum.splits)
  show ?thesis
    by (rule size_frame[OF m, of _ mc]) (simp_all add: w' store_macctx_def k)
qed

lemma key_binds_staged_by:
  assumes m: "macctxs w a = Some m" and st: "staged_by w m params = Some c"
    and d: "cipher_desc w c = Some d"
    and key: "OSSL_PARAM_locate_const params OSSL_MAC_PARAM_KEY = Some p"
    and run: "cmac_set_ctx_params w a params = Some (Inr (), w')"
  shows "cmac_size w' a = Some (block_size d)"
proof -
  obtain rc wc mc where sc: "set_cipher w m params = (rc, wc, mc)"
    by (cases "set_cipher w m params") auto
  note k = set_cipher_keeps[OF sc]
  from st sc have t: "tmpcipher mc = Some c" by (simp add: staged_by_def)
  from d k have d': "cipher_desc wc c = Some d" by simp
  from run m sc t d' key show ?thesis
    by (auto simp: cmac_set_ctx_params_def set_key_def CMAC_Init_def cmac_size_def
      EVP_CIPHER_CTX_block_size_def CMAC_CTX_get0_cipher_ctx_def store_macctx_def store_cmac_def
      deref_cmac_def split: bind_splits if_splits sum.splits)
qed

lemma staged_by_selected:
  assumes "selects_cipher w m params"
    and "OSSL_PARAM_locate_const params OSSL_MAC_PARAM_CIPHER = Some p"
  shows "staged_by w m params =
           (case fetch_tab w (PROV_LIBRARY_CONTEXT_OF (provctx m), buffer_of (data p),
                   map_option (\<lambda>pq. buffer_of (data pq))
                     (OSSL_PARAM_locate_const params OSSL_MAC_PARAM_PROPERTIES)) of
              Some c \<Rightarrow> Some c
            | None \<Rightarrow> if fips_mode w then None
                      else legacy_tab w (buffer_of (data p)))"
proof -
  obtain re we me where se: "set_engine w m params = (re, we, me)"
    by (cases "set_engine w m params") auto
  have fr: "fetch_tab we = fetch_tab w \<and> legacy_tab we = legacy_tab w \<and> fips_mode we = fips_mode w \<and> provctx me = provctx m"
    using se
    by (auto simp: set_engine_def ENGINE_finish_def ENGINE_by_id_def Let_def
      split: if_splits option.splits prod.splits)
  from assms se fr show ?thesis
    by (auto simp: staged_by_def set_cipher_def selects_cipher_def Let_def fetch_cipher_def
        EVP_CIPHER_meth_free_def EVP_CIPHER_fetch_def EVP_get_cipherbyname_def
        split: option.splits)
qed

text \<open>When the two binding paths return 1.\<close>

lemma cmac_init_staged_succeeds:
  assumes "macctxs w a = Some m" and "tmpcipher m = Some c"
    and "deref_cmac w (ctx m) = Some (at, x)"
  shows "\<exists>w'. cmac_init w a = Some (Inr (), w')"
  using assms
  by (simp add: cmac_init_def CMAC_Init_def)

lemma key_set_succeeds:
  assumes m: "macctxs w a = Some m" and ok: "fst (set_cipher w m params) = Inr ()"
    and st: "staged_by w m params = Some c" and d: "cipher_desc w c = Some d"
    and key: "OSSL_PARAM_locate_const params OSSL_MAC_PARAM_KEY = Some p"
    and ty: "data_type p = OSSL_PARAM_OCTET_STRING"
    and len: "length (buffer_of (data p)) = key_length d"
    and x: "deref_cmac w (ctx m) = Some (at, x)"
  shows "\<exists>w'. cmac_set_ctx_params w a params = Some (Inr (), w')"
proof -
  obtain rc wc mc where sc: "set_cipher w m params = (rc, wc, mc)"
    by (cases "set_cipher w m params") auto
  note k = set_cipher_keeps[OF sc]
  from ok sc have rc: "rc = Inr ()" by simp
  from st sc have t: "tmpcipher mc = Some c" by (simp add: staged_by_def)
  from x k have x': "deref_cmac wc (ctx mc) = Some (at, x)"
    by (simp add: deref_cmac_def)
  from d k have d': "cipher_desc wc c = Some d" by simp
  from m sc rc t x' d' key ty len show ?thesis
    by (simp add: cmac_set_ctx_params_def set_key_def CMAC_Init_def)
qed

lemma get_size:
  assumes "cmac_size w a = Some n" "OSSL_PARAM_locate req OSSL_MAC_PARAM_SIZE = Some i"
    and "data_type (req ! i) = OSSL_PARAM_UNSIGNED_INTEGER"
  shows "cmac_get_ctx_params w a req = Some (Inr (req[i := (req ! i)\<lparr>data := Size_t n\<rparr>]))"
  using assms by (simp add: cmac_get_ctx_params_def OSSL_PARAM_set_size_t_def)

lemma init_empty:
  assumes "macctxs w a = Some m" "tmpcipher m = None" "tmpengine m = None"
    and "deref_cmac w (ctx m) = Some (at, x)" "cipher_key (cctx x) = None"
  shows "cmac_init w a = Some (Inl NotConfigured, w)"
proof -
  have "m\<lparr>tmpcipher := None, tmpengine := None\<rparr> = m" using assms by simp
  then show ?thesis using assms
    by (simp add: cmac_init_def CMAC_Init_def store_macctx_same)
qed

lemma update_unbound:
  assumes "unbound w a"
  shows "cmac_update w a d = Some (Inl InvalidState, w)"
  using assms
  by (auto simp: unbound_def cmac_update_def CMAC_Update_def split: option.splits)

lemma final_twice:
  assumes "cmac_final w a n = Some (Inr out, w')"
  shows "cmac_final w' a n' = Some (Inl InvalidState, w')"
  using assms
  by (auto simp: cmac_final_def CMAC_Final_def deref_cmac_def store_cmac_def
      split: bind_splits option.splits if_splits)

lemma init_clears:
  assumes "macctxs w a = Some m" "cmac_init w a = Some (rv, w')"
  shows "\<exists>m'. macctxs w' a = Some m' \<and> tmpcipher m' = None \<and> tmpengine m' = None"
  using assms
  by (auto simp: cmac_init_def store_macctx_def split: bind_splits)

lemma key_clears:
  assumes "macctxs w a = Some m" "cmac_set_ctx_params w a params = Some (Inr (), w')"
    and "OSSL_PARAM_locate_const params OSSL_MAC_PARAM_KEY = Some p"
  shows "\<exists>m'. macctxs w' a = Some m' \<and> tmpcipher m' = None \<and> tmpengine m' = None"
  using assms
  by (auto simp: cmac_set_ctx_params_def set_key_def store_macctx_def
      split: bind_splits prod.splits sum.splits if_splits)

lemma key_failure_keeps_struct:
  assumes "macctxs w a = Some m"
    and "OSSL_PARAM_locate_const params OSSL_MAC_PARAM_CIPHER = None"
    and "OSSL_PARAM_locate_const params OSSL_MAC_PARAM_KEY = Some p"
    and "cmac_set_ctx_params w a params = Some (Inl e, w')"
  shows "macctxs w' a = Some m"
  using assms
  by (auto simp: cmac_set_ctx_params_def set_cipher_def set_key_def store_macctx_def
      split: bind_splits sum.splits if_splits)

lemma cmac_free_engine_refs:
  assumes "cmac_free w p = Some w'"
  shows "engine_refs w' = engine_refs w"
  using assms
  by (auto simp: cmac_free_def CMAC_CTX_free_def EVP_CIPHER_meth_free_def OPENSSL_free_def
      Let_def split: option.splits bind_splits)

lemma cmac_dup_null_dst:
  assumes "macctxs w vsrc = Some src" "mem_avail w < 2"
  shows "cmac_dup w vsrc = None"
proof -
  obtain dst w1 where new: "cmac_new w (provctx src) = (dst, w1)"
    by (cases "cmac_new w (provctx src)") auto
  with cmac_new_fails[OF assms(2), of "provctx src"] have "dst = None" by simp
  with assms(1) new show ?thesis by (simp add: cmac_dup_def)
qed

lemma unbound_kept_by_init:
  assumes "unbound w a" "cmac_init w a = Some (rv, w')"
  shows "unbound w' a"
  using assms
  by (auto simp: unbound_def cmac_init_def CMAC_Init_def deref_cmac_def store_cmac_def
      store_macctx_def Let_def split: option.splits bind_splits if_splits)

section \<open>The claims\<close>

text \<open>
  C1 (corrected). The claim: for every bound context and every buffer capacity strictly
  less than the output size, \<open>final\<close> fails with \<open>BufferTooSmall\<close> without writing, and a
  retry with enough capacity succeeds. The body of \<open>cmac_final\<close> never reads \<open>outsize\<close>.
  What holds: for every bound context and every capacity \<open>n\<close>, also one below the output
  size, \<open>cmac_final\<close> returns 1, reports the block size of the bound cipher through
  \<open>outl\<close> and writes exactly that many bytes; the outcome is the same for any two
  capacities.
\<close>

theorem cmac_final_ignores_capacity:
  assumes "macctxs w a = Some m" and "deref_cmac w (ctx m) = Some (at, x)"
    and "cipher_key (cctx x) = Some k" and "\<not> finalized x"
    and "cipher (cctx x) = Some c" and "cipher_desc w c = Some d"
  shows "cmac_size w a = Some (block_size d) \<and>
         cmac_final w a n =
           Some (Inr (map (MacByte c k (absorbed x)) [0..<block_size d], block_size d),
                 store_cmac w at (x\<lparr>finalized := True\<rparr>)) \<and>
         length (map (MacByte c k (absorbed x)) [0..<block_size d]) = block_size d \<and>
         cmac_final w a n = cmac_final w a n'"
  using size_bound[OF assms(1,2,5,6)] final_bound[OF assms]
  by simp

theorem cmac_final_ignores_capacity_witness:
  "cmac_size world_bound 10 = Some 16 \<and>
   map_option fst (cmac_final world_bound 10 15)
     = Some (Inr (map (MacByte 100 zero_key []) [0..<16], 16)) \<and>
   cmac_final world_bound 10 15 = cmac_final world_bound 10 16"
  using cmac_final_ignores_capacity[OF bound_live bound_deref bound_key bound_not_final
      bound_cipher bound_desc, of 15 16]
  by (auto simp: aes_block bound_absorbed)

text \<open>
  The counterexample to C1 as stated: the context bound by \<open>set(cipher)\<close>, \<open>set(key)\<close>
  has output size 16; \<open>final\<close> with capacity 15 returns 1 and writes 16 bytes.
\<close>

theorem cmac_final_small_buffer_counterexample:
  "cmac_set_ctx_params world_staged 10 [key_param zero_key] = Some (Inr (), world_bound) \<and>
   cmac_size world_bound 10 = Some 16 \<and>
   map_option fst (cmac_final world_bound 10 15)
     = Some (Inr (map (MacByte 100 zero_key []) [0..<16], 16)) \<and>
   length (map (MacByte 100 zero_key []) [0..<16]) = 16 \<and>
   map_option fst (cmac_final world_bound 10 15) \<noteq> Some (Inl BufferTooSmall)"
  using run_bind
    size_bound[OF bound_live bound_deref bound_cipher bound_desc]
    final_bound[OF bound_live bound_deref bound_key bound_not_final bound_cipher bound_desc,
      of 15]
  by (simp add: aes_block bound_absorbed)

text \<open>
  C2 (confirmed). For every live context: \<open>duplicate\<close> returns a copy whenever the
  allocator can satisfy three more requests and the reference count can be incremented (or
  no fetched cipher is held). Every copy it returns is a context distinct from the source,
  with a \<open>CMAC_CTX\<close> of its own that holds the same value as the source's; the source is
  unchanged. An update through the duplicate does not change what \<open>final\<close> produces on the
  original, and the other way round. The duplicate holds the source's fetched cipher
  handle, whose reference count went up by one; no cipher was fetched and no descriptor
  was created or changed.
\<close>

theorem cmac_dup_independent:
  assumes inv: "alloc_inv w"
    and src: "macctxs w vsrc = Some src" and sc: "ctx src = Some sc"
    and x: "cmac_ctxs w sc = Some x"
  shows "(3 \<le> mem_avail w \<and> (atomics_ok w \<or> alloc_cipher src = None) \<longrightarrow>
            (\<exists>vdst w'. cmac_dup w vsrc = Some (Inr vdst, w'))) \<and>
         (\<forall>vdst w'. cmac_dup w vsrc = Some (Inr vdst, w') \<longrightarrow>
            vdst \<noteq> vsrc \<and> macctxs w' vsrc = Some src \<and> cmac_ctxs w' sc = Some x \<and>
            (\<exists>dm dc. macctxs w' vdst = Some dm \<and> ctx dm = Some dc \<and> dc \<noteq> sc \<and>
                     cmac_ctxs w' dc = Some x \<and> alloc_cipher dm = alloc_cipher src) \<and>
            (\<forall>d n. \<exists>r w''. cmac_update w' vdst d = Some (r, w'') \<and>
                     map_option fst (cmac_final w'' vsrc n)
                       = map_option fst (cmac_final w' vsrc n)) \<and>
            (\<forall>d n. \<exists>r w''. cmac_update w' vsrc d = Some (r, w'') \<and>
                     map_option fst (cmac_final w'' vdst n)
                       = map_option fst (cmac_final w' vdst n)) \<and>
            cipher_desc w' = cipher_desc w \<and> fetch_tab w' = fetch_tab w \<and>
            (\<forall>h. cipher_refs w' h = cipher_refs w h + owned src h))"
proof -
  have made: "3 \<le> mem_avail w \<and> (atomics_ok w \<or> alloc_cipher src = None) \<longrightarrow>
            (\<exists>vdst w'. cmac_dup w vsrc = Some (Inr vdst, w'))"
    using cmac_dup_succeeds[OF inv src sc x] by blast
  have indep: "vdst \<noteq> vsrc \<and> macctxs w' vsrc = Some src \<and> cmac_ctxs w' sc = Some x \<and>
            (\<exists>dm dc. macctxs w' vdst = Some dm \<and> ctx dm = Some dc \<and> dc \<noteq> sc \<and>
                     cmac_ctxs w' dc = Some x \<and> alloc_cipher dm = alloc_cipher src) \<and>
            (\<forall>d n. \<exists>r w''. cmac_update w' vdst d = Some (r, w'') \<and>
                     map_option fst (cmac_final w'' vsrc n)
                       = map_option fst (cmac_final w' vsrc n)) \<and>
            (\<forall>d n. \<exists>r w''. cmac_update w' vsrc d = Some (r, w'') \<and>
                     map_option fst (cmac_final w'' vdst n)
                       = map_option fst (cmac_final w' vdst n)) \<and>
            cipher_desc w' = cipher_desc w \<and> fetch_tab w' = fetch_tab w \<and>
            (\<forall>h. cipher_refs w' h = cipher_refs w h + owned src h)"
    if dup: "cmac_dup w vsrc = Some (Inr vdst, w')" for vdst w'
  proof -
  note d = cmac_dup_Inr[OF dup inv src sc x]
  let ?dm = "\<lparr>provctx = provctx src, ctx = Some (next_addr w + 1), tmpcipher = tmpcipher src,
               alloc_cipher = alloc_cipher src, tmpengine = tmpengine src\<rparr>"
  let ?dc = "next_addr w + 1"
  from d have ne: "vdst \<noteq> vsrc" by simp
  from d have ne2: "?dc \<noteq> sc" by simp
  from d src have s': "macctxs w' vsrc = Some src" by simp
  from d have d': "macctxs w' vdst = Some ?dm" by simp
  from d x have sx: "cmac_ctxs w' sc = Some x" by simp
  from d have dx: "cmac_ctxs w' ?dc = Some x" by simp
  have cd: "ctx ?dm = Some ?dc" by simp
  from update_final_frame[OF d' cd dx s' sc ne2]
  have one: "\<forall>d n. \<exists>r w''. cmac_update w' vdst d = Some (r, w'') \<and>
      map_option fst (cmac_final w'' vsrc n) = map_option fst (cmac_final w' vsrc n)"
    by blast
  from update_final_frame[OF s' sc sx d' cd ne2[symmetric]]
  have two: "\<forall>d n. \<exists>r w''. cmac_update w' vsrc d = Some (r, w'') \<and>
      map_option fst (cmac_final w'' vdst n) = map_option fst (cmac_final w' vdst n)"
    by blast
  have refs: "\<forall>h. cipher_refs w' h = cipher_refs w h + owned src h"
    using d by (auto simp: owned_def split: option.splits)
  have copy: "\<exists>dm dc. macctxs w' vdst = Some dm \<and> ctx dm = Some dc \<and> dc \<noteq> sc \<and>
                  cmac_ctxs w' dc = Some x \<and> alloc_cipher dm = alloc_cipher src"
    using d' dx ne2 by auto
  from ne s' sx copy one two refs d show ?thesis by simp
  qed
  from made indep show ?thesis by blast
qed

theorem cmac_dup_independent_witness:
  "alloc_inv world_bound \<and> 3 \<le> mem_avail world_bound \<and> atomics_ok world_bound \<and>
   (\<exists>vdst w'. cmac_dup world_bound 10 = Some (Inr vdst, w')) \<and>
   cmac_dup world_bound 10 = Some (Inr 12, world_dup) \<and>
   macctxs world_dup 10 = Some bound_macctx \<and>
   cipher_refs world_bound 100 + 1 = cipher_refs world_dup 100 \<and>
   (\<forall>d n. \<exists>r w''. cmac_update world_dup 12 d = Some (r, w'') \<and>
      map_option fst (cmac_final w'' 10 n) = map_option fst (cmac_final world_dup 10 n)) \<and>
   (\<forall>d n. \<exists>r w''. cmac_update world_dup 10 d = Some (r, w'') \<and>
      map_option fst (cmac_final w'' 12 n) = map_option fst (cmac_final world_dup 12 n))"
proof -
  note t = cmac_dup_independent[OF alloc_inv_bound bound_live bound_ctx bound_cmac_live]
  have m: "3 \<le> mem_avail world_bound \<and> atomics_ok world_bound"
    by (simp add: run_defs)
  with t have p: "\<exists>vdst w'. cmac_dup world_bound 10 = Some (Inr vdst, w')"
    by blast
  from t run_dup have
    "macctxs world_dup 10 = Some bound_macctx \<and>
     (\<forall>d n. \<exists>r w''. cmac_update world_dup 12 d = Some (r, w'') \<and>
        map_option fst (cmac_final w'' 10 n) = map_option fst (cmac_final world_dup 10 n)) \<and>
     (\<forall>d n. \<exists>r w''. cmac_update world_dup 10 d = Some (r, w'') \<and>
        map_option fst (cmac_final w'' 12 n) = map_option fst (cmac_final world_dup 12 n)) \<and>
     (\<forall>h. cipher_refs world_dup h = cipher_refs world_bound h + owned bound_macctx h)"
    by blast
  moreover have "owned bound_macctx 100 = 1"
    by (simp add: owned_def bound_macctx_def)
  ultimately show ?thesis using m p run_dup alloc_inv_bound by simp
qed

text \<open>
  C3 (corrected). The claim: once a cipher has been selected, even when it is only staged
  and nothing is bound, the size query and the "size" parameter return that cipher's
  block size. \<open>cmac_size\<close> reads the cipher context inside \<open>macctx->ctx\<close> and never
  \<open>tmpcipher\<close>. What holds: once the staged cipher has been handed to the computation
  state, by \<open>init\<close> or by a set call that supplies the key (the cipher staged by an earlier
  call or by the same call), the size query and a request for the "size" parameter return
  exactly that cipher's declared block size. A set call that supplies no key leaves the
  answer of the size query as it was, whatever cipher it stages: a cipher that is only
  staged is not consulted.
\<close>

theorem cmac_size_after_binding:
  assumes "macctxs w a = Some m" and "cipher_desc w c = Some d"
    and "(tmpcipher m = Some c \<and> cmac_init w a = Some (Inr (), w')) \<or>
         (staged_by w m params = Some c \<and>
          OSSL_PARAM_locate_const params OSSL_MAC_PARAM_KEY = Some p \<and>
          cmac_set_ctx_params w a params = Some (Inr (), w'))"
    and "OSSL_PARAM_locate req OSSL_MAC_PARAM_SIZE = Some i"
    and "data_type (req ! i) = OSSL_PARAM_UNSIGNED_INTEGER"
  shows "cmac_size w' a = Some (block_size d) \<and>
         cmac_get_ctx_params w' a req =
           Some (Inr (req[i := (req ! i)\<lparr>data := Size_t (block_size d)\<rparr>])) \<and>
         (\<forall>ps rv v. OSSL_PARAM_locate_const ps OSSL_MAC_PARAM_KEY = None \<and>
                    cmac_set_ctx_params w a ps = Some (rv, v) \<longrightarrow>
                    cmac_size v a = cmac_size w a)"
proof -
  from assms(3) have sz: "cmac_size w' a = Some (block_size d)"
  proof
    assume "tmpcipher m = Some c \<and> cmac_init w a = Some (Inr (), w')"
    then show ?thesis using init_binds_staged[OF assms(1) _ assms(2)] by blast
  next
    assume "staged_by w m params = Some c \<and>
          OSSL_PARAM_locate_const params OSSL_MAC_PARAM_KEY = Some p \<and>
          cmac_set_ctx_params w a params = Some (Inr (), w')"
    then show ?thesis using key_binds_staged_by[OF assms(1) _ assms(2)] by blast
  qed
  from get_size[OF sz assms(4,5)] sz set_without_key_keeps_size show ?thesis
    by blast
qed

theorem cmac_size_after_binding_witness:
  "staged_by world_new fresh_macctx [cipher_param ''AES-128-CBC'', key_param zero_key]
     = Some 100 \<and>
   cmac_set_ctx_params world_new 10 [cipher_param ''AES-128-CBC'', key_param zero_key]
     = Some (Inr (), world_bound) \<and>
   staged_by world_staged staged_macctx [key_param zero_key] = Some 100 \<and>
   cmac_set_ctx_params world_staged 10 [key_param zero_key] = Some (Inr (), world_bound) \<and>
   cmac_size world_bound 10 = Some 16 \<and>
   cmac_get_ctx_params world_bound 10 [size_request]
     = Some (Inr [size_request\<lparr>data := Size_t 16\<rparr>]) \<and>
   (\<exists>w'. cmac_init world_staged 10 = Some (Inr (), w') \<and> cmac_size w' 10 = Some 16) \<and>
   cmac_set_ctx_params world_new 10 [cipher_param ''AES-128-CBC''] = Some (Inr (), world_staged) \<and>
   cmac_size world_staged 10 = cmac_size world_new 10"
proof -
  let ?once = "[cipher_param ''AES-128-CBC'', key_param zero_key]"
  have live: "macctxs world_new 10 = Some fresh_macctx"
    by (simp add: run_defs)
  have desc: "cipher_desc world_new 100 = Some aes_128_cbc"
    by (simp add: run_defs)
  have s1: "staged_by world_new fresh_macctx ?once = Some 100"
    by (simp add: staged_by_def set_defs run_defs)
  have k1: "OSSL_PARAM_locate_const ?once OSSL_MAC_PARAM_KEY = Some (key_param zero_key)"
    by (simp add: OSSL_PARAM_locate_const_def param_names key_param_def cipher_param_def)
  have s2: "staged_by world_staged staged_macctx [key_param zero_key] = Some 100"
    by (simp add: staged_by_def set_cipher_def OSSL_PARAM_locate_const_def param_names
        key_param_def staged_macctx_def)
  have k2: "OSSL_PARAM_locate_const [key_param zero_key] OSSL_MAC_PARAM_KEY
              = Some (key_param zero_key)"
    by (simp add: OSSL_PARAM_locate_const_def param_names key_param_def)
  have nk: "OSSL_PARAM_locate_const [cipher_param ''AES-128-CBC''] OSSL_MAC_PARAM_KEY = None"
    by (simp add: OSSL_PARAM_locate_const_def param_names cipher_param_def)
  obtain w' where i: "cmac_init world_staged 10 = Some (Inr (), w')"
    by (simp add: cmac_init_def CMAC_Init_def deref_cmac_def run_defs)
  have t: "tmpcipher staged_macctx = Some 100"
    by (simp add: staged_macctx_def)
  have r: "OSSL_PARAM_locate [size_request] OSSL_MAC_PARAM_SIZE = Some 0"
    by (simp add: param_names size_request_def)
  have u: "data_type ([size_request] ! 0) = OSSL_PARAM_UNSIGNED_INTEGER"
    by (simp add: size_request_def)
  from cmac_size_after_binding[OF live desc disjI2, of ?once "key_param zero_key" world_bound,
      OF _ r u] s1 k1 run_bind_once
  have once: "cmac_size world_bound 10 = Some 16 \<and>
        cmac_get_ctx_params world_bound 10 [size_request]
          = Some (Inr [size_request\<lparr>data := Size_t 16\<rparr>]) \<and>
        (\<forall>ps rv v. OSSL_PARAM_locate_const ps OSSL_MAC_PARAM_KEY = None \<and>
                    cmac_set_ctx_params world_new 10 ps = Some (rv, v) \<longrightarrow>
                    cmac_size v 10 = cmac_size world_new 10)"
    by (simp add: aes_block)
  with nk run_stage have same: "cmac_size world_staged 10 = cmac_size world_new 10"
    by blast
  from cmac_size_after_binding[OF staged_live staged_desc disjI2,
      of "[key_param zero_key]" "key_param zero_key" world_bound, OF _ r u] s2 k2 run_bind
  have two: "cmac_size world_bound 10 = Some 16"
    by (simp add: aes_block)
  from cmac_size_after_binding[OF staged_live staged_desc disjI1, of w', OF _ r u] t i
  have "cmac_size w' 10 = Some 16"
    by (simp add: aes_block)
  with once same two s1 s2 run_bind_once run_bind run_stage i show ?thesis
    by blast
qed

text \<open>
  The counterexample to C3 as stated: after \<open>set(cipher = AES-128-CBC)\<close> has returned 1
  the cipher with block size 16 is staged, and the size query is not 16: it reads a cipher
  context that holds no cipher. The same query gives the same result when the cipher with
  block size 8 is staged instead.
\<close>

theorem cmac_size_staged_counterexample:
  "cmac_set_ctx_params world_new 10 [cipher_param ''AES-128-CBC''] = Some (Inr (), world_staged) \<and>
   map_option tmpcipher (macctxs world_staged 10) = Some (Some 100) \<and>
   map_option block_size (cipher_desc world_staged 100) = Some 16 \<and>
   cmac_size world_staged 10 \<noteq> Some 16 \<and>
   cmac_get_ctx_params world_staged 10 [size_request]
     \<noteq> Some (Inr [size_request\<lparr>data := Size_t 16\<rparr>]) \<and>
   cmac_set_ctx_params world_new 10 [cipher_param ''DES-EDE3-CBC'']
     = Some (Inr (), world_staged_des) \<and>
   map_option block_size (cipher_desc world_staged_des 101) = Some 8 \<and>
   cmac_size world_staged_des 10 = cmac_size world_staged 10"
  using run_stage run_stage_des
  by (simp add: cmac_size_def cmac_get_ctx_params_def deref_cmac_def
      EVP_CIPHER_CTX_block_size_def CMAC_CTX_get0_cipher_ctx_def param_names run_defs
      world_staged_des_def staged_des_macctx_def size_request_def)

text \<open>
  C4 (the code departs from the claim). The claim: once key binding is triggered, by
  \<open>init\<close> or by setting the key parameter, the staged cipher and the staged engine are
  both \<open>NULL\<close>, whichever path triggered it. The struct's comments say that \<open>tmpcipher\<close>
  and \<open>tmpengine\<close> are cleared after a \<open>CMAC_Init\<close> call, and \<open>cmac_init\<close> clears them
  whatever \<open>CMAC_Init\<close> returned; the key block of \<open>cmac_set_ctx_params\<close> returns 0
  before the clearing when \<open>CMAC_Init\<close> fails. Here, with AES-128-CBC staged, a set call
  supplies a key of five bytes: \<open>CMAC_Init\<close> is called and refuses, the call returns 0 and
  the cipher is still staged. With only an engine staged (the cipher name was unknown), a
  set call supplies a key: \<open>CMAC_Init\<close> is called and fails, the call returns 0 and the
  engine is still staged.
\<close>

theorem failed_key_set_keeps_staged:
  "map_option tmpcipher (macctxs world_staged 10) = Some (Some 100) \<and>
   OSSL_PARAM_locate_const [key_param ''short''] OSSL_MAC_PARAM_KEY
     = Some (key_param ''short'') \<and>
   cmac_set_ctx_params world_staged 10 [key_param ''short'']
     = Some (Inl BindingFailure, world_staged) \<and>
   \<not> staged_cleared world_staged 10 \<and>
   cmac_set_ctx_params world_new 10 [cipher_param ''NO-SUCH'', engine_param ''e1'']
     = Some (Inl UnresolvedCipher, world_engine_only) \<and>
   map_option tmpengine (macctxs world_engine_only 10) = Some (Some 200) \<and>
   cmac_set_ctx_params world_engine_only 10 [key_param zero_key]
     = Some (Inl NotConfigured, world_engine_only) \<and>
   \<not> staged_cleared world_engine_only 10"
  using run_engine_only
  by (simp add: set_defs staged_cleared_def run_defs world_engine_only_def
      engine_only_macctx_def engine_param_def fun_upd_idem)

text \<open>
  C5 (confirmed, against the primitive as the spec describes it). An update on a context
  that no key has been bound into, a context fresh from \<open>cmac_new\<close> in particular,
  returns 0 with \<open>InvalidState\<close> and changes nothing; after a \<open>final\<close> that returned 1,
  another \<open>final\<close> on the same context returns 0 with \<open>InvalidState\<close>.
\<close>

theorem update_unbound_final_twice:
  "(cmac_new v pc = (Some b, v') \<longrightarrow> cmac_update v' b d = Some (Inl InvalidState, v')) \<and>
   (unbound w a \<longrightarrow> cmac_update w a d = Some (Inl InvalidState, w)) \<and>
   (cmac_final w a n = Some (Inr out, w') \<longrightarrow>
      cmac_final w' a n' = Some (Inl InvalidState, w'))"
  using update_unbound cmac_new_unbound final_twice
  by blast

theorem update_unbound_final_twice_witness:
  "cmac_new world0 0 = (Some 10, world_new) \<and>
   cmac_update world_new 10 ''abc'' = Some (Inl InvalidState, world_new) \<and>
   unbound world_staged 10 \<and>
   cmac_update world_staged 10 ''abc'' = Some (Inl InvalidState, world_staged) \<and>
   (\<exists>out w'. cmac_final world_bound 10 16 = Some (Inr out, w') \<and>
      cmac_final w' 10 16 = Some (Inl InvalidState, w'))"
proof -
  have u: "unbound world_staged 10"
    by (simp add: unbound_def deref_cmac_def run_defs)
  obtain out w' where f: "cmac_final world_bound 10 16 = Some (Inr out, w')"
    using final_bound[OF bound_live bound_deref bound_key bound_not_final bound_cipher
        bound_desc]
    by blast
  from update_unbound_final_twice[where v = world0 and pc = 0 and b = 10 and v' = world_new
      and d = "''abc''" and w = world_staged and a = 10]
    update_unbound_final_twice[where w = world_bound and a = 10 and n = 16 and out = out
      and w' = w' and n' = 16] run_new u f
  show ?thesis by blast
qed

text \<open>
  C6 (confirmed, against the primitive as the spec describes it). On a context in which no
  cipher has been staged (none is staged now and none has reached the computation state),
  a set call that supplies the key and stages no cipher returns 0 with \<open>NotConfigured\<close>
  and leaves the whole store as it was: no computation state is bound.
\<close>

theorem key_before_cipher_fails:
  assumes "macctxs w a = Some m" and "tmpcipher m = None"
    and "deref_cmac w (ctx m) = Some (at, x)" and "cipher (cctx x) = None"
    and "OSSL_PARAM_locate_const params OSSL_MAC_PARAM_CIPHER = None"
    and "OSSL_PARAM_locate_const params OSSL_MAC_PARAM_KEY = Some p"
    and "data_type p = OSSL_PARAM_OCTET_STRING"
  shows "cmac_set_ctx_params w a params = Some (Inl NotConfigured, w)"
  using assms
  by (simp add: cmac_set_ctx_params_def set_cipher_def set_key_def CMAC_Init_def
      store_macctx_same)

theorem key_before_cipher_fails_witness:
  "cmac_new world0 0 = (Some 10, world_new) \<and>
   cmac_set_ctx_params world_new 10 [key_param zero_key] = Some (Inl NotConfigured, world_new) \<and>
   unbound world_new 10"
proof -
  have l: "macctxs world_new 10 = Some fresh_macctx"
    by (simp add: run_defs)
  have t: "tmpcipher fresh_macctx = None"
    by (simp add: run_defs)
  have r: "deref_cmac world_new (ctx fresh_macctx) = Some (11, new_cmac)"
    by (simp add: deref_cmac_def run_defs)
  have c: "cipher (cctx new_cmac) = None"
    by (simp add: new_cmac_def)
  have pc: "OSSL_PARAM_locate_const [key_param zero_key] OSSL_MAC_PARAM_CIPHER = None"
    by (simp add: OSSL_PARAM_locate_const_def param_names key_param_def)
  have pk: "OSSL_PARAM_locate_const [key_param zero_key] OSSL_MAC_PARAM_KEY
              = Some (key_param zero_key)"
    by (simp add: OSSL_PARAM_locate_const_def param_names key_param_def)
  have ty: "data_type (key_param zero_key) = OSSL_PARAM_OCTET_STRING"
    by (simp add: key_param_def)
  from key_before_cipher_fails[OF l t r c pc pk ty] run_new cmac_new_unbound[OF run_new]
  show ?thesis by simp
qed

text \<open>
  C7 (confirmed, against the primitive as the spec describes it). On a freshly created
  context, and on any context with nothing staged and no key bound, \<open>init\<close> returns 0 with
  \<open>NotConfigured\<close> and changes nothing; it does not return 1.
\<close>

theorem init_on_empty_fails:
  "(cmac_new v pc = (Some b, v') \<longrightarrow> cmac_init v' b = Some (Inl NotConfigured, v')) \<and>
   (unbound w a \<and> staged_cleared w a \<longrightarrow> cmac_init w a = Some (Inl NotConfigured, w))"
proof -
  have gen: "cmac_init u c = Some (Inl NotConfigured, u)"
    if "unbound u c" "staged_cleared u c" for u c
    using that
    by (auto simp: unbound_def staged_cleared_def split: option.splits intro: init_empty)
  have "unbound v' b \<and> staged_cleared v' b" if "cmac_new v pc = (Some b, v')"
    using cmac_new_unbound[OF that] cmac_new_Some[OF that]
    by (simp add: staged_cleared_def zeroed_def)
  with gen show ?thesis by blast
qed

theorem init_on_empty_fails_witness:
  "cmac_new world0 0 = (Some 10, world_new) \<and>
   cmac_init world_new 10 = Some (Inl NotConfigured, world_new) \<and>
   cmac_init world_new 10 \<noteq> Some (Inr (), world_new)"
  using init_on_empty_fails[where v = world0 and pc = 0 and b = 10 and v' = world_new] run_new
  by simp



text \<open>
  C9 (the code departs from the claim). \<open>cmac_free\<close> releases the \<open>CMAC_CTX\<close>, the fetched
  cipher and the struct, and has no call for the engine: a context freed while an engine
  is staged leaves the engine's reference count where it was. Here the context staged by
  \<open>set(cipher, engine)\<close> is freed: the context is gone, the cipher's count is back at 0,
  the engine's count is still 1.
\<close>

theorem cmac_free_leaves_engine_reference:
  "cmac_set_ctx_params world_new 10 [cipher_param ''AES-128-CBC'', engine_param ''e1'']
     = Some (Inr (), world_engine) \<and>
   map_option tmpengine (macctxs world_engine 10) = Some (Some 200) \<and>
   cipher_refs world_engine 100 = 1 \<and> engine_refs world_engine 200 = 1 \<and>
   map_option (\<lambda>w'. (macctxs w' 10, cipher_refs w' 100, engine_refs w' 200))
     (cmac_free world_engine (Some 10)) = Some (None, 0, 1)"
  using run_engine
  by (simp add: cmac_free_def CMAC_CTX_free_def EVP_CIPHER_meth_free_def OPENSSL_free_def
      run_defs world_engine_def engine_macctx_def engine_param_def)

text \<open>
  C10 (the code departs from the claim). \<open>cmac_dup\<close> reads \<open>dst->ctx\<close> without testing
  what \<open>cmac_new\<close> returned. Here the source is the bound context and the allocator cannot
  satisfy another request: \<open>cmac_new\<close> returns \<open>NULL\<close>, and \<open>cmac_dup\<close> has no defined
  result, where the claim has it return the error.
\<close>

theorem cmac_dup_dereferences_null:
  "macctxs world_oom 10 = Some bound_macctx \<and>
   cmac_new world_oom (provctx bound_macctx) = (None, world_oom) \<and>
   cmac_dup world_oom 10 = None"
  by (simp add: cmac_dup_def cmac_new_def OPENSSL_zalloc_def OPENSSL_free_def run_defs
      world_oom_def)

end
